theory Spec2Isabelle
  imports Complex_Main "HOL-Library.Sublist" "HOL-Library.Log_Nat"
begin

section \<open>Tables, cells and rows\<close>

text \<open>
  The pipeline passes pandas tables from stage to stage.  A cell of a column whose values
  have type \<open>'a\<close> is one of three things for the code: the column does not exist in the
  table (\<open>row.get(name, default)\<close> yields the default, \<open>name in df.columns\<close> is
  false), the column exists and the value is missing (\<open>pd.isna\<close> holds), or a value.
\<close>

datatype 'a cell = Absent | NaN | Val 'a

text \<open>\<open>row.get(name, default)\<close>: only an absent column gives the default.\<close>

definition get_default :: "'a cell \<Rightarrow> 'a \<Rightarrow> 'a cell" where
  "get_default c d = (case c of Absent \<Rightarrow> Val d | _ \<Rightarrow> c)"

text \<open>\<open>pd.isna\<close> on the result of \<open>row.get(name)\<close>: \<open>None\<close> and NaN/NaT are missing.\<close>

definition isna :: "'a cell \<Rightarrow> bool" where
  "isna c = (case c of Val _ \<Rightarrow> False | _ \<Rightarrow> True)"

definition notna :: "'a cell \<Rightarrow> bool" where
  "notna c = (\<not> isna c)"

text \<open>
  Python truth of \<open>row.get(flag, False)\<close>: an absent column gives \<open>False\<close>, a
  missing value is the float NaN, which is true, a Boolean is itself.
\<close>

definition truthy :: "bool cell \<Rightarrow> bool" where
  "truthy c = (case c of Absent \<Rightarrow> False | NaN \<Rightarrow> True | Val b \<Rightarrow> b)"

text \<open>A calendar date as \<open>pd.Timestamp\<close> carries it (the time of day plays no role).\<close>

record date =
  year :: nat
  month :: nat
  day :: nat

text \<open>
  Text is Python \<open>str\<close> over the Latin-1 repertoire, one \<open>char\<close> per code point
  (\<open>CHR 0xE9\<close> is e acute), which covers the Portuguese of the sheets and of the
  messages.  \<open>str.upper\<close> maps a to z and the accented small letters to their capitals
  and sharp s to SS; the two Latin-1 letters whose capital lies outside Latin-1 (micro sign,
  y diaeresis) are left as they are, which no comparison of the pipeline can observe since
  every pattern it tests is made of capitals and blanks.
\<close>

definition upper_char :: "char \<Rightarrow> string" where
  "upper_char c =
     (let n = (of_char c :: nat)
      in if (97 \<le> n \<and> n \<le> 122) \<or> (224 \<le> n \<and> n \<le> 254 \<and> n \<noteq> 247)
         then [char_of (n - 32)]
         else if n = 223 then ''SS'' else [c])"

definition upper :: "string \<Rightarrow> string" where
  "upper s = concat (map upper_char s)"

text \<open>\<open>sep.join(parts)\<close>.\<close>

fun join :: "string \<Rightarrow> string list \<Rightarrow> string" where
  "join sep [] = []"
| "join sep [p] = p"
| "join sep (p # q # ps) = p @ sep @ join sep (q # ps)"

text \<open>\<open>str(n)\<close> of an integer and the zero-padded fields of \<open>strftime\<close>.\<close>

definition digit :: "nat \<Rightarrow> char" where
  "digit n = char_of (48 + n mod 10)"

fun digits :: "nat \<Rightarrow> string" where
  "digits n = (if n < 10 then [digit n] else digits (n div 10) @ [digit n])"

definition str_int :: "int \<Rightarrow> string" where
  "str_int i = (if i < 0 then CHR ''-'' # digits (nat (- i)) else digits (nat i))"

definition pad2 :: "nat \<Rightarrow> string" where
  "pad2 n = (if n < 10 then CHR ''0'' # digits n else digits n)"

text \<open>
  \<open>strftime("%d/%m/%Y")\<close>; a \<open>pd.Timestamp\<close> lies between the years 1677 and 2262,
  so the year has four digits.
\<close>

definition strftime_dmY :: "date \<Rightarrow> string" where
  "strftime_dmY d = pad2 (day d) @ ''/'' @ pad2 (month d) @ ''/'' @ digits (year d)"

text \<open>
  One row type serves every table of the run: a field for each column name some stage
  reads or writes.  Column names that are not identifiers are spelled with underscores:
  \<open>TITULO_DO_CARGO\<close> is \<open>'TITULO DO CARGO'\<close>, \<open>DESC_SITUACAO\<close> is
  \<open>'DESC. SITUACAO'\<close>, \<open>DIAS_DE_FERIAS\<close> is the vacation sheet's day count (E acute in
  the sheet), \<open>DATA_DEMISSAO_TIL\<close> is that sheet's date column spelled with a blank and
  A tilde, \<open>Admissao\<close> is the admission sheet's date column (a tilde).  Day counts are
  whole numbers.  Amounts of money are doubles in the code; a double is kept as the rational
  number it denotes.
\<close>

record row =
  MATRICULA :: "int cell"
  TITULO_DO_CARGO :: "string cell"
  DESC_SITUACAO :: "string cell"
  Sindicato :: "string cell"
  Cadastro :: "int cell"
  DIAS_DE_FERIAS :: "int cell"
  DATA_DEMISSAO :: "date cell"
  DATA_DEMISSAO_TIL :: "date cell"
  Admissao :: "date cell"
  SINDICATO :: "string cell"
  VALOR_DIA :: "rat cell"
  DIAS_UTEIS :: "int cell"
  IS_ESTAGIARIO :: "bool cell"
  IS_APRENDIZ :: "bool cell"
  IS_AFASTADO :: "bool cell"
  IS_EXTERIOR :: "bool cell"
  IS_DESLIGADO :: "bool cell"
  DATA_ADMISSAO :: "date cell"
  DIAS_UTEIS_SINDICATO :: "int cell"
  ELEGIVEL_VR :: "bool cell"
  MOTIVO_EXCLUSAO_VR :: "string cell"
  TIPO_CALCULO :: "string cell"
  DATA_LIMITE_CALCULO :: "date cell"
  EM_FERIAS :: "bool cell"
  DIAS_FERIAS :: "int cell"
  DIAS_CALCULO :: "int cell"
  VALOR_TOTAL_VR :: "rat cell"
  CUSTO_EMPRESA :: "rat cell"
  DESCONTO_PROFISSIONAL :: "rat cell"
  OBSERVACOES :: "string cell"

text \<open>
  A \<open>DataFrame\<close>: its rows in index order, and its column index, kept as one more row
  whose cell is \<open>Absent\<close> exactly for the columns the table does not have.  A table with
  rows has at least one column, so \<open>df.empty\<close> is the absence of rows.
\<close>

record frame =
  columns :: row
  rows :: "row list"

definition has_column :: "(row \<Rightarrow> 'a cell) \<Rightarrow> frame \<Rightarrow> bool" where
  "has_column col df = (col (columns df) \<noteq> Absent)"

definition empty :: "frame \<Rightarrow> bool" where
  "empty df = (rows df = [])"

text \<open>
  \<open>df[name] = value\<close> creates or overwrites a whole column.  \<open>df.at[idx, name] = v\<close>
  inside a loop over the rows writes one cell; when the column is new, pandas creates it
  with missing values in the other rows.  A loop that writes cells is the map of its body
  over the rows followed by \<open>created\<close>, which records the column and fills the cells the
  loop left untouched.
\<close>

definition assign :: "(('a cell \<Rightarrow> 'a cell) \<Rightarrow> row \<Rightarrow> row) \<Rightarrow> 'a \<Rightarrow> frame \<Rightarrow> frame" where
  "assign col_update v df =
     \<lparr>columns = col_update (\<lambda>_. NaN) (columns df),
      rows = map (col_update (\<lambda>_. Val v)) (rows df)\<rparr>"

definition filled :: "'a cell \<Rightarrow> 'a cell" where
  "filled c = (case c of Absent \<Rightarrow> NaN | _ \<Rightarrow> c)"


text \<open>Exceptions; the stage records \<open>str(e)\<close>, which the exception determines.\<close>

datatype exn = ValueError string | KeyError string | NameError string

text \<open>
  The run state (graph/state.py), with the keys the stages below read or write.  A key
  that may be missing from the dictionary or hold \<open>None\<close> is an option.
\<close>

record VRState =
  raw_files :: "(string \<rightharpoonup> frame) option"
  consolidated_df :: "frame option"
  validated_df :: "frame option"
  calculated_df :: "frame option"
  total_employees :: nat
  errors :: "(string \<times> exn) list option"
  processing_stage :: string
  success :: bool

text \<open>
  The \<open>except Exception\<close> clause every stage ends with: the error is appended under the
  stage's name (the list is created when the key is missing) and the run is marked failed.
\<close>

definition fail_stage :: "string \<Rightarrow> exn \<Rightarrow> VRState \<Rightarrow> VRState" where
  "fail_stage name e state =
     state\<lparr>errors := Some ((case errors state of None \<Rightarrow> [] | Some es \<Rightarrow> es) @ [(name, e)]),
           success := False,
           processing_stage := name @ ''_failed''\<rparr>"

section \<open>Calculation\<close>

text \<open>
  \<open>int(dias_base * 0.5)\<close>: the product with \<open>0.5\<close> is exact in double precision for
  a base of magnitude up to \<open>2^53\<close>, and \<open>int\<close> cuts the fraction off towards zero.
\<close>

definition int_of_half :: "int \<Rightarrow> int" where
  "int_of_half b = (if 0 \<le> b then b div 2 else - ((- b) div 2))"

text \<open>\<open>VRBusinessRules.calculate_vacation_adjustment\<close> (core/rules.py).\<close>

definition calculate_vacation_adjustment :: "int \<Rightarrow> int \<Rightarrow> int" where
  "calculate_vacation_adjustment base_days vacation_days = max 0 (base_days - vacation_days)"

text \<open>\<open>CalculationAgent._calculate_individual_workdays\<close> (agents/calculation.py).\<close>

definition calculate_individual_workdays :: "row \<Rightarrow> int" where
  "calculate_individual_workdays employee =
     (let dias_base = (case get_default (DIAS_UTEIS_SINDICATO employee) 22 of
                         Val b \<Rightarrow> b | _ \<Rightarrow> 22);
          tipo_calculo = get_default (TIPO_CALCULO employee) ''INTEGRAL''
      in if tipo_calculo = Val ''INTEGRAL'' then dias_base
         else if tipo_calculo = Val ''FERIAS'' then
           (let dias_ferias = (case get_default (DIAS_FERIAS employee) 0 of
                                 Val f \<Rightarrow> f | _ \<Rightarrow> 0)
            in max 0 (dias_base - dias_ferias))
         else if tipo_calculo = Val ''PROPORCIONAL'' then
           (case DATA_LIMITE_CALCULO employee of
              Val data_limite \<Rightarrow>
                if day data_limite \<le> 15 then max 1 (int_of_half dias_base)
                else dias_base
            | _ \<Rightarrow> dias_base)
         else dias_base)"

text \<open>
  The three places where the stage computes in binary floating point are taken as
  parameters: the product of two doubles, \<open>round(x, 2)\<close> and the format \<open>{x:.2f}\<close>.
  The literals \<open>0.8\<close> and \<open>0.2\<close> are the doubles Python reads them as.
\<close>

record float_ops =
  fmul :: "rat \<Rightarrow> rat \<Rightarrow> rat"
  round2 :: "rat \<Rightarrow> rat"
  fmt2 :: "rat \<Rightarrow> string"

definition double_0_8 :: rat where
  "double_0_8 = 3602879701896397 / 4503599627370496"

definition double_0_2 :: rat where
  "double_0_2 = 3602879701896397 / 18014398509481984"

text \<open>
  Double precision.  A finite double is a rational number, and every operation on doubles
  gives the double nearest to the exact result, a tie going to the one with the even
  significand.  \<open>round_half_even\<close> is that rule for integers.  \<open>exponent x\<close> is the
  \<open>e\<close> with \<open>2^e \<le> x < 2^(e+1)\<close> for a positive \<open>x\<close>; a double has 53 significant
  bits, and its last bit is never finer than \<open>2^-1074\<close>.  Results beyond the largest
  finite double (infinities) are outside this model.
\<close>

definition round_half_even :: "rat \<Rightarrow> int" where
  "round_half_even x =
     (let f = \<lfloor>x\<rfloor>; r = x - of_int f
      in if r < 1 / 2 then f
         else if 1 / 2 < r then f + 1
         else if even f then f else f + 1)"

definition exponent :: "rat \<Rightarrow> int" where
  "exponent x = (if 1 \<le> x then bitlen \<lfloor>x\<rfloor> - 1 else - bitlen (\<lceil>1 / x\<rceil> - 1))"

definition round_binary64 :: "rat \<Rightarrow> rat" where
  "round_binary64 x =
     (if x = 0 then 0
      else let q = max (exponent \<bar>x\<bar> - 52) (- 1074)
           in of_int (round_half_even (x / 2 powi q)) * 2 powi q)"

text \<open>
  The operations of the stage on doubles: the product, \<open>round(x, 2)\<close>, which is the
  double nearest to the exact value of \<open>x\<close> rounded to two decimals (half to even), and
  \<open>{x:.2f}\<close>, which prints the exact value of \<open>x\<close> rounded the same way.
\<close>

definition binary64_ops :: float_ops where
  "binary64_ops =
     \<lparr>fmul = (\<lambda>x y. round_binary64 (x * y)),
      round2 = (\<lambda>x. round_binary64 (of_int (round_half_even (x * 100)) / 100)),
      fmt2 = (\<lambda>x. let c = round_half_even (\<bar>x\<bar> * 100)
                   in (if x < 0 then ''-'' else [])
                      @ str_int (c div 100) @ ''.'' @ pad2 (nat (c mod 100)))\<rparr>"

text \<open>\<open>str(row.get(name, ''))\<close>: a missing value is the float NaN, printed \<open>nan\<close>.\<close>

definition str_get :: "string cell \<Rightarrow> string" where
  "str_get c = (case c of Absent \<Rightarrow> [] | NaN \<Rightarrow> ''nan'' | Val s \<Rightarrow> s)"

text \<open>\<open>CalculationAgent._get_daily_value_for_employee\<close>.\<close>

definition get_daily_value_for_employee :: "row \<Rightarrow> rat" where
  "get_daily_value_for_employee employee =
     (let sindicato = str_get (Sindicato employee);
          fallback =
            (if sublist ''SINDPD SP'' sindicato then 75 / 2
             else if sublist ''SINDPPD RS'' sindicato then 35
             else if sublist ''SITEPD PR'' sindicato then 35
             else if sublist ''SINDPD RJ'' sindicato then 35
             else 35)
      in case VALOR_DIA employee of
           Val valor_dia \<Rightarrow> if valor_dia > 0 then valor_dia else fallback
         | _ \<Rightarrow> fallback)"

text \<open>
  \<open>CalculationAgent._generate_employee_observations\<close>.  \<open>int(dias_ferias)\<close> raises
  on a missing value.
\<close>

definition generate_employee_observations :: "float_ops \<Rightarrow> row \<Rightarrow> int \<Rightarrow> rat \<Rightarrow> exn + string" where
  "generate_employee_observations fl employee dias valor_diario =
     (let tipo_calculo = get_default (TIPO_CALCULO employee) ''INTEGRAL'';
          calculo = str_int dias @ '' dias '' @ [CHR 0xD7] @ '' R$ '' @ fmt2 fl valor_diario
      in if tipo_calculo = Val ''FERIAS'' then
           (case get_default (DIAS_FERIAS employee) 0 of
              Val dias_ferias \<Rightarrow>
                Inr (join ''; '' [''AJUSTE F'' @ [CHR 0xC9] @ ''RIAS: '' @ str_int dias_ferias
                                  @ '' dias descontados'', calculo])
            | _ \<Rightarrow> Inl (ValueError ''cannot convert float NaN to integer''))
         else if tipo_calculo = Val ''PROPORCIONAL'' then
           (case DATA_LIMITE_CALCULO employee of
              Val data_limite \<Rightarrow>
                Inr (join ''; '' [''DESLIGAMENTO PROPORCIONAL at'' @ [CHR 0xE9] @ '' ''
                                  @ strftime_dmY data_limite, calculo])
            | _ \<Rightarrow> Inr (join ''; '' [calculo]))
         else Inr (join ''; '' [calculo]))"

text \<open>\<open>str(e)\<close>; a \<open>KeyError\<close> prints its key quoted.\<close>

definition str_exn :: "exn \<Rightarrow> string" where
  "str_exn e = (case e of ValueError m \<Rightarrow> m
                | KeyError k \<Rightarrow> [CHR 0x27] @ k @ [CHR 0x27]
                | NameError n \<Rightarrow> ''name '' @ [CHR 0x27] @ n @ [CHR 0x27] @ '' is not defined'')"

text \<open>
  The body of the loop of \<open>CalculationAgent._calculate_individual_benefits\<close>: the row
  holds the initial values of the five result columns; an exception inside the \<open>try\<close>
  leaves them and writes the error into OBSERVACOES.
\<close>

definition calculate_employee :: "float_ops \<Rightarrow> row \<Rightarrow> row" where
  "calculate_employee fl employee =
     (let dias_calculo = calculate_individual_workdays employee;
          valor_diario = get_daily_value_for_employee employee;
          valor_total = fmul fl (of_int dias_calculo) valor_diario;
          custo_empresa = fmul fl valor_total double_0_8;
          desconto_profissional = fmul fl valor_total double_0_2
      in case generate_employee_observations fl employee dias_calculo valor_diario of
           Inr observacoes \<Rightarrow>
             employee\<lparr>DIAS_CALCULO := Val dias_calculo,
                      VALOR_TOTAL_VR := Val (round2 fl valor_total),
                      CUSTO_EMPRESA := Val (round2 fl custo_empresa),
                      DESCONTO_PROFISSIONAL := Val (round2 fl desconto_profissional),
                      OBSERVACOES := Val observacoes\<rparr>
         | Inl e \<Rightarrow>
             employee\<lparr>OBSERVACOES := Val (''ERRO NO C'' @ [CHR 0xC1] @ ''LCULO: '' @ str_exn e)\<rparr>)"

text \<open>
  \<open>CalculationAgent._calculate_individual_benefits\<close>.  \<open>employee['MATRICULA']\<close> is
  read outside the inner \<open>try\<close>: without that column the first row raises \<open>KeyError\<close>.
\<close>

definition calculate_individual_benefits :: "float_ops \<Rightarrow> frame \<Rightarrow> exn + frame" where
  "calculate_individual_benefits fl df =
     (let df0 = assign OBSERVACOES_update []
                 (assign DESCONTO_PROFISSIONAL_update 0
                   (assign CUSTO_EMPRESA_update 0
                     (assign VALOR_TOTAL_VR_update 0
                       (assign DIAS_CALCULO_update 0 df))))
      in if rows df0 \<noteq> [] \<and> \<not> has_column MATRICULA df0 then Inl (KeyError ''MATRICULA'')
         else Inr (df0\<lparr>rows := map (calculate_employee fl) (rows df0)\<rparr>))"

text \<open>
  \<open>CalculationAgent.execute\<close>.  The body of its \<open>try\<close> returns the state it has
  reached and the exception that ended it, if any.  \<open>_validate_calculation_results\<close>
  only logs, and \<open>_calculate_final_statistics\<close> writes totals under keys that are not
  part of \<open>VRState\<close>; neither raises on a table that has the five result columns.  After
  \<open>calculated_df\<close> is stored, line 55 reads the name \<open>workdays\<close>, which is bound
  neither in \<open>execute\<close> nor in the module.
\<close>

definition calculation_try :: "float_ops \<Rightarrow> VRState \<Rightarrow> VRState \<times> exn option" where
  "calculation_try fl state =
     (case validated_df state of
        None \<Rightarrow> (state, Some (ValueError (''DataFrame validado n'' @ [CHR 0xE3]
                                           @ ''o encontrado no estado'')))
      | Some df \<Rightarrow>
          if empty df
          then (state, Some (ValueError (''DataFrame validado est'' @ [CHR 0xE1]
                                          @ '' vazio ou inv'' @ [CHR 0xE1] @ ''lido'')))
          else (case calculate_individual_benefits fl df of
                  Inl e \<Rightarrow> (state, Some e)
                | Inr df' \<Rightarrow> (state\<lparr>calculated_df := Some df'\<rparr>, Some (NameError ''workdays''))))"

definition calculation_execute :: "float_ops \<Rightarrow> VRState \<Rightarrow> VRState" where
  "calculation_execute fl state =
     (case calculation_try fl state of
        (state', None) \<Rightarrow> state'
      | (state', Some e) \<Rightarrow> fail_stage ''calculation'' e state')"

section \<open>Eligibility\<close>

text \<open>
  The body of the loop of \<open>ValidationAgent._apply_individual_exclusion_rules\<close>
  (agents/validation.py): the list \<open>motivos\<close> of one row, each test appending its cause.
\<close>

definition motivos_of :: "row \<Rightarrow> string list" where
  "motivos_of row =
     (let cargo = upper (str_get (TITULO_DO_CARGO row));
          situacao = upper (str_get (DESC_SITUACAO row))
      in (if truthy (IS_ESTAGIARIO row) then [''Estagi'' @ [CHR 0xE1] @ ''rio''] else [])
       @ (if truthy (IS_APRENDIZ row) then [''Aprendiz''] else [])
       @ (if truthy (IS_AFASTADO row) then [''Afastado''] else [])
       @ (if truthy (IS_EXTERIOR row) then [''Trabalha no exterior''] else [])
       @ (if sublist ''DIRETOR'' cargo \<or> sublist ''GERENTE GERAL'' cargo
             \<or> sublist ''PRESIDENTE'' cargo
          then [''Cargo exclu'' @ [CHR 0xED] @ ''do''] else [])
       @ (if situacao \<noteq> [] \<and> situacao \<notin> set [''TRABALHANDO'', ''F'' @ [CHR 0xC9] @ ''RIAS'']
             \<and> situacao \<in> set [''LICEN'' @ [CHR 0xC7] @ ''A MATERNIDADE'',
                                 ''AUX'' @ [CHR 0xCD] @ ''LIO DOEN'' @ [CHR 0xC7] @ ''A'',
                                 ''ATESTADO'']
          then [''Situa'' @ [CHR 0xE7, CHR 0xE3] @ ''o: '' @ situacao] else []))"

text \<open>
  The table when the loop has ended: each row with its cells of the two working columns
  ELEGIVEL (set to \<open>True\<close> before the loop) and MOTIVO_EXCLUSAO (set to the empty string).
\<close>

definition exclusion_marks :: "frame \<Rightarrow> (row \<times> bool \<times> string) list" where
  "exclusion_marks df =
     map (\<lambda>row. let motivos = motivos_of row
                in if motivos \<noteq> [] then (row, False, join ''; '' motivos) else (row, True, []))
         (rows df)"

text \<open>
  \<open>_apply_individual_exclusion_rules\<close> returns the rows still marked eligible, without
  the two working columns.  (The counters it stores in the state are not part of the model.)
\<close>

definition apply_individual_exclusion_rules :: "frame \<Rightarrow> frame" where
  "apply_individual_exclusion_rules df =
     df\<lparr>rows := map fst (filter (\<lambda>(row, elegivel, motivo). elegivel) (exclusion_marks df))\<rparr>"


text \<open>The body of the loop of \<open>ValidationAgent._apply_dismissal_rules\<close>.\<close>

definition dismissal_row :: "row \<Rightarrow> row" where
  "dismissal_row row =
     (case (truthy (IS_DESLIGADO row), DATA_DEMISSAO row) of
        (True, Val data_demissao) \<Rightarrow>
          if day data_demissao \<le> 15
          then row\<lparr>ELEGIVEL_VR := Val False,
                   MOTIVO_EXCLUSAO_VR := Val (''Demiss'' @ [CHR 0xE3] @ ''o at'' @ [CHR 0xE9]
                                              @ '' dia 15 ('' @ strftime_dmY data_demissao @ '')'')\<rparr>
          else row\<lparr>ELEGIVEL_VR := Val True,
                   TIPO_CALCULO := Val ''PROPORCIONAL'',
                   DATA_LIMITE_CALCULO := Val data_demissao\<rparr>
      | _ \<Rightarrow> row\<lparr>ELEGIVEL_VR := Val True, TIPO_CALCULO := Val ''INTEGRAL''\<rparr>)"







section \<open>Consolidation\<close>

text \<open>
  \<open>df.drop_duplicates(subset=['MATRICULA'])\<close>: a row is kept when its key has not been
  seen in an earlier row; missing keys count as equal to each other.
\<close>

fun keep_first :: "('r \<Rightarrow> 'k) \<Rightarrow> 'k list \<Rightarrow> 'r list \<Rightarrow> 'r list" where
  "keep_first key seen [] = []"
| "keep_first key seen (r # rs) =
     (if key r \<in> set seen then keep_first key seen rs
      else r # keep_first key (key r # seen) rs)"

definition drop_duplicates :: "frame \<Rightarrow> frame" where
  "drop_duplicates df = df\<lparr>rows := keep_first MATRICULA [] (rows df)\<rparr>"

text \<open>
  \<open>base_df.merge(right, on="MATRICULA", how="left")\<close> where \<open>right\<close> has the key and
  one more column, which the merge adds under the name \<open>col\<close>: every row of the left
  table, in order, once for each row of the right table with the same key, and once with a
  missing value when there is none.  When the left table already has a column of that name,
  pandas renames both (suffixes \<open>_x\<close>, \<open>_y\<close>), so that no column of that name is left.
\<close>

definition merge_left ::
  "(row \<Rightarrow> 'a cell) \<Rightarrow> (('a cell \<Rightarrow> 'a cell) \<Rightarrow> row \<Rightarrow> row) \<Rightarrow> (row \<Rightarrow> 'a cell) \<Rightarrow> frame \<Rightarrow> frame \<Rightarrow> frame" where
  "merge_left col col_update right_col base_df right =
     (let joined =
            concat (map (\<lambda>r. case filter (\<lambda>s. MATRICULA s = MATRICULA r) (rows right) of
                                [] \<Rightarrow> [col_update (\<lambda>_. NaN) r]
                              | ms \<Rightarrow> map (\<lambda>s. col_update (\<lambda>_. filled (right_col s)) r) ms)
                        (rows base_df))
      in if has_column col base_df
         then \<lparr>columns = col_update (\<lambda>_. Absent) (columns base_df),
               rows = map (col_update (\<lambda>_. Absent)) joined\<rparr>
         else \<lparr>columns = col_update (\<lambda>_. NaN) (columns base_df), rows = joined\<rparr>)"

text \<open>\<open>base_df[flag] = base_df['MATRICULA'].isin(keys)\<close>.\<close>

definition assign_isin :: "((bool cell \<Rightarrow> bool cell) \<Rightarrow> row \<Rightarrow> row) \<Rightarrow> int cell list \<Rightarrow> frame \<Rightarrow> frame" where
  "assign_isin flag_update keys base_df =
     \<lparr>columns = flag_update (\<lambda>_. NaN) (columns base_df),
      rows = map (\<lambda>r. flag_update (\<lambda>_. Val (MATRICULA r \<in> set keys)) r) (rows base_df)\<rparr>"

text \<open>One round of the loop over \<open>exclusion_files\<close>; \<open>dropna\<close> removes the missing keys.\<close>

definition mark_exclusion ::
  "(string \<rightharpoonup> frame) \<Rightarrow> string \<Rightarrow> ((bool cell \<Rightarrow> bool cell) \<Rightarrow> row \<Rightarrow> row) \<Rightarrow> frame \<Rightarrow> frame" where
  "mark_exclusion raw file_key flag_update base_df =
     (case raw file_key of
        None \<Rightarrow> base_df
      | Some exclusion_df \<Rightarrow>
          if empty exclusion_df then base_df
          else if has_column MATRICULA exclusion_df
          then assign_isin flag_update (filter notna (map MATRICULA (rows exclusion_df))) base_df
          else if has_column Cadastro exclusion_df
          then assign_isin flag_update (filter notna (map Cadastro (rows exclusion_df))) base_df
          else base_df)"

text \<open>
  \<open>ConsolidationAgent._consolidate_employee_data\<close> (agents/consolidation.py), in four
  steps.  In the dismissal step, a sheet that has the date column only under its accented
  name is renamed and then indexed by the old name, which raises \<open>KeyError\<close>.
\<close>

definition add_ferias :: "(string \<rightharpoonup> frame) \<Rightarrow> frame \<Rightarrow> frame" where
  "add_ferias raw base_df =
     (case raw ''ferias'' of
        None \<Rightarrow> base_df
      | Some ferias_df \<Rightarrow>
          if \<not> empty ferias_df \<and> has_column MATRICULA ferias_df
             \<and> has_column DIAS_DE_FERIAS ferias_df
          then merge_left DIAS_DE_FERIAS DIAS_DE_FERIAS_update DIAS_DE_FERIAS
                 base_df (drop_duplicates ferias_df)
          else base_df)"

definition add_exclusions :: "(string \<rightharpoonup> frame) \<Rightarrow> frame \<Rightarrow> frame" where
  "add_exclusions raw base_df =
     mark_exclusion raw ''exterior'' IS_EXTERIOR_update
       (mark_exclusion raw ''afastamentos'' IS_AFASTADO_update
         (mark_exclusion raw ''aprendiz'' IS_APRENDIZ_update
           (mark_exclusion raw ''estagio'' IS_ESTAGIARIO_update base_df)))"

definition add_desligados :: "(string \<rightharpoonup> frame) \<Rightarrow> frame \<Rightarrow> exn + frame" where
  "add_desligados raw base_df =
     (case raw ''desligados'' of
        None \<Rightarrow> Inr base_df
      | Some desligados_df \<Rightarrow>
          if \<not> empty desligados_df \<and> has_column MATRICULA desligados_df
          then if has_column DATA_DEMISSAO desligados_df
               then Inr (assign_isin IS_DESLIGADO_update (map MATRICULA (rows desligados_df))
                          (merge_left DATA_DEMISSAO DATA_DEMISSAO_update DATA_DEMISSAO
                             base_df (drop_duplicates desligados_df)))
               else if has_column DATA_DEMISSAO_TIL desligados_df
               then Inl (KeyError (''['' @ [CHR 0x27] @ ''DATA DEMISS'' @ [CHR 0xC3] @ ''O''
                                    @ [CHR 0x27] @ ''] not in index''))
               else Inr (assign_isin IS_DESLIGADO_update (map MATRICULA (rows desligados_df))
                           base_df)
          else Inr base_df)"

definition add_admissao :: "(string \<rightharpoonup> frame) \<Rightarrow> frame \<Rightarrow> frame" where
  "add_admissao raw base_df =
     (case raw ''admissao'' of
        None \<Rightarrow> base_df
      | Some admissao_df \<Rightarrow>
          if \<not> empty admissao_df \<and> has_column MATRICULA admissao_df
             \<and> has_column Admissao admissao_df
          then merge_left DATA_ADMISSAO DATA_ADMISSAO_update Admissao
                 base_df (drop_duplicates admissao_df)
          else base_df)"

definition consolidate_employee_data :: "frame \<Rightarrow> (string \<rightharpoonup> frame) \<Rightarrow> exn + frame" where
  "consolidate_employee_data base_df raw =
     (case add_desligados raw (add_exclusions raw (add_ferias raw base_df)) of
        Inl e \<Rightarrow> Inl e
      | Inr df \<Rightarrow> Inr (add_admissao raw df))"

text \<open>
  \<open>dict(zip(keys, values))\<close>: a later pair replaces an earlier one with the same key.
  \<open>Series.map\<close> looks each cell up, and \<open>fillna\<close> puts the default where the key is
  not in the dictionary or its value is missing.
\<close>

definition dict_zip :: "'k list \<Rightarrow> 'v list \<Rightarrow> ('k \<rightharpoonup> 'v)" where
  "dict_zip ks vs = map_of (rev (zip ks vs))"

definition map_fillna :: "('k \<rightharpoonup> 'v cell) \<Rightarrow> 'v \<Rightarrow> 'k \<Rightarrow> 'v cell" where
  "map_fillna d fill k = (case d k of Some (Val v) \<Rightarrow> Val v | _ \<Rightarrow> Val fill)"

text \<open>\<open>ConsolidationAgent._add_union_values\<close>.\<close>

definition add_union_values :: "frame \<Rightarrow> (string \<rightharpoonup> frame) \<Rightarrow> frame" where
  "add_union_values base_df raw =
     (case raw ''base_sindicato'' of
        None \<Rightarrow> base_df
      | Some sindicato_df \<Rightarrow>
          if \<not> empty sindicato_df \<and> has_column SINDICATO sindicato_df
             \<and> has_column VALOR_DIA sindicato_df \<and> has_column Sindicato base_df
          then (let union_value_map = dict_zip (map SINDICATO (rows sindicato_df))
                                               (map VALOR_DIA (rows sindicato_df))
                in \<lparr>columns = (columns base_df)\<lparr>VALOR_DIA := NaN\<rparr>,
                    rows = map (\<lambda>r. r\<lparr>VALOR_DIA := map_fillna union_value_map 35 (Sindicato r)\<rparr>)
                               (rows base_df)\<rparr>)
          else base_df)"

text \<open>\<open>ConsolidationAgent._add_workdays_by_union\<close>.\<close>

definition add_workdays_by_union :: "frame \<Rightarrow> (string \<rightharpoonup> frame) \<Rightarrow> frame" where
  "add_workdays_by_union base_df raw =
     (case raw ''base_dias_uteis'' of
        None \<Rightarrow> base_df
      | Some dias_df \<Rightarrow>
          if \<not> empty dias_df \<and> has_column SINDICATO dias_df
             \<and> has_column DIAS_UTEIS dias_df \<and> has_column Sindicato base_df
          then (let union_days_map = dict_zip (map SINDICATO (rows dias_df))
                                              (map DIAS_UTEIS (rows dias_df))
                in \<lparr>columns = (columns base_df)\<lparr>DIAS_UTEIS_SINDICATO := NaN\<rparr>,
                    rows = map (\<lambda>r. r\<lparr>DIAS_UTEIS_SINDICATO :=
                                          map_fillna union_days_map 22 (Sindicato r)\<rparr>)
                               (rows base_df)\<rparr>)
          else base_df)"

text \<open>\<open>ConsolidationAgent.execute\<close>: the body of its \<open>try\<close>, then the stage.\<close>

definition consolidation_try :: "VRState \<Rightarrow> VRState \<times> exn option" where
  "consolidation_try state =
     (case raw_files state of
        None \<Rightarrow> (state, Some (ValueError (''Dados brutos n'' @ [CHR 0xE3]
                                           @ ''o encontrados no estado'')))
      | Some raw \<Rightarrow>
          if raw = Map.empty
          then (state, Some (ValueError (''Dados brutos n'' @ [CHR 0xE3]
                                          @ ''o encontrados no estado'')))
          else (case raw ''ativos'' of
                  None \<Rightarrow> (state, Some (ValueError (''Arquivo ATIVOS obrigat'' @ [CHR 0xF3]
                                                     @ ''rio n'' @ [CHR 0xE3] @ ''o encontrado'')))
                | Some ativos \<Rightarrow>
                    if has_column MATRICULA ativos
                    then (case consolidate_employee_data (drop_duplicates ativos) raw of
                            Inl e \<Rightarrow> (state, Some e)
                          | Inr df \<Rightarrow>
                              (let base_df = add_workdays_by_union (add_union_values df raw) raw
                               in (state\<lparr>consolidated_df := Some base_df,
                                         total_employees := length (rows base_df),
                                         processing_stage := ''consolidation_complete'',
                                         success := True\<rparr>, None)))
                    else (state, Some (ValueError (''Coluna MATRICULA n'' @ [CHR 0xE3]
                                                    @ ''o encontrada em ATIVOS'')))))"

definition consolidation_execute :: "VRState \<Rightarrow> VRState" where
  "consolidation_execute state =
     (case consolidation_try state of
        (state', None) \<Rightarrow> state'
      | (state', Some e) \<Rightarrow> fail_stage ''consolidation'' e state')"

section \<open>Worked examples\<close>

text \<open>The column index of a table without columns, from which the examples are built.\<close>

definition no_columns :: row where
  "no_columns =
     \<lparr>MATRICULA = Absent, TITULO_DO_CARGO = Absent, DESC_SITUACAO = Absent, Sindicato = Absent,
      Cadastro = Absent, DIAS_DE_FERIAS = Absent, DATA_DEMISSAO = Absent,
      DATA_DEMISSAO_TIL = Absent, Admissao = Absent, SINDICATO = Absent, VALOR_DIA = Absent,
      DIAS_UTEIS = Absent, IS_ESTAGIARIO = Absent, IS_APRENDIZ = Absent, IS_AFASTADO = Absent,
      IS_EXTERIOR = Absent, IS_DESLIGADO = Absent, DATA_ADMISSAO = Absent,
      DIAS_UTEIS_SINDICATO = Absent, ELEGIVEL_VR = Absent, MOTIVO_EXCLUSAO_VR = Absent,
      TIPO_CALCULO = Absent, DATA_LIMITE_CALCULO = Absent, EM_FERIAS = Absent,
      DIAS_FERIAS = Absent, DIAS_CALCULO = Absent, VALOR_TOTAL_VR = Absent,
      CUSTO_EMPRESA = Absent, DESCONTO_PROFISSIONAL = Absent, OBSERVACOES = Absent\<rparr>"

text \<open>
  An instance of the floating-point parameters for the examples: exact decimal arithmetic,
  rounding half up (it is not the arithmetic of doubles).
\<close>

definition decimal_ops :: float_ops where
  "decimal_ops =
     \<lparr>fmul = (*),
      round2 = (\<lambda>x. of_int (round (x * 100)) / 100),
      fmt2 = (\<lambda>x. str_int (round (x * 100) div 100) @ ''.''
                   @ pad2 (nat (round (x * 100) mod 100)))\<rparr>"

text \<open>A prorated employee with a base of 23 days and the cutoff on the 10th.\<close>

definition prorated_example :: row where
  "prorated_example =
     no_columns\<lparr>DIAS_UTEIS_SINDICATO := Val 23, TIPO_CALCULO := Val ''PROPORCIONAL'',
                DATA_LIMITE_CALCULO := Val \<lparr>year = 2025, month = 5, day = 10\<rparr>\<rparr>"

text \<open>An employee with 30 days of vacation against a base of 22 days.\<close>

definition vacation_example :: row where
  "vacation_example =
     no_columns\<lparr>DIAS_UTEIS_SINDICATO := Val 22, TIPO_CALCULO := Val ''FERIAS'',
                DIAS_FERIAS := Val 30\<rparr>"

text \<open>A run state whose validated table has one full-period employee, number 1001.\<close>

definition one_row_state :: VRState where
  "one_row_state =
     \<lparr>raw_files = None, consolidated_df = None,
      validated_df = Some \<lparr>columns = no_columns\<lparr>MATRICULA := NaN\<rparr>,
                            rows = [no_columns\<lparr>MATRICULA := Val 1001\<rparr>]\<rparr>,
      calculated_df = None, total_employees = 1, errors = Some [],
      processing_stage = ''validation_complete'', success = True\<rparr>"

text \<open>An intern who holds the title "Diretor Regional", and the table with that one row.\<close>

definition intern_director :: row where
  "intern_director =
     no_columns\<lparr>MATRICULA := Val 100, TITULO_DO_CARGO := Val ''Diretor Regional'',
                DESC_SITUACAO := Val ''Trabalhando'', IS_ESTAGIARIO := Val True\<rparr>"

definition intern_director_table :: frame where
  "intern_director_table =
     \<lparr>columns = no_columns\<lparr>MATRICULA := NaN, TITULO_DO_CARGO := NaN, DESC_SITUACAO := NaN,
                            IS_ESTAGIARIO := NaN\<rparr>,
      rows = [intern_director]\<rparr>"






section \<open>What the specification speaks of\<close>

text \<open>The columns of the primary roster, taken together.\<close>

definition roster_fields :: "row \<Rightarrow> int cell \<times> string cell \<times> string cell \<times> string cell" where
  "roster_fields r = (MATRICULA r, TITULO_DO_CARGO r, DESC_SITUACAO r, Sindicato r)"

text \<open>
  The value a reference table gives for a union: that of the last row that names the union
  exactly, and the default when no row names it or that row's value is missing.
\<close>

definition reference_value :: "(row \<Rightarrow> 'a cell) \<Rightarrow> frame \<Rightarrow> 'a \<Rightarrow> string cell \<Rightarrow> 'a cell" where
  "reference_value col reference fill sindicato =
     (case filter (\<lambda>s. SINDICATO s = sindicato) (rows reference) of
        [] \<Rightarrow> Val fill
      | m # ms \<Rightarrow> (case col (last (m # ms)) of Val v \<Rightarrow> Val v | _ \<Rightarrow> Val fill))"

section \<open>More worked examples\<close>

text \<open>
  A roster in which identifier 100 appears twice with different job titles, a rate table and
  a workdays table that know one of the two unions, and run states holding them.
\<close>

definition analyst_100 :: row where
  "analyst_100 =
     no_columns\<lparr>MATRICULA := Val 100, TITULO_DO_CARGO := Val ''Analista'',
                DESC_SITUACAO := Val ''Trabalhando'', Sindicato := Val ''SINDPD SP''\<rparr>"

definition technician_200 :: row where
  "technician_200 =
     no_columns\<lparr>MATRICULA := Val 200, TITULO_DO_CARGO := Val ''Tecnico'',
                DESC_SITUACAO := Val ''Trabalhando'', Sindicato := Val ''SINDPD RJ''\<rparr>"

definition manager_100 :: row where
  "manager_100 =
     no_columns\<lparr>MATRICULA := Val 100, TITULO_DO_CARGO := Val ''Gerente'',
                DESC_SITUACAO := Val ''Trabalhando'', Sindicato := Val ''SINDPD SP''\<rparr>"

definition roster_example :: frame where
  "roster_example =
     \<lparr>columns = no_columns\<lparr>MATRICULA := NaN, TITULO_DO_CARGO := NaN, DESC_SITUACAO := NaN,
                            Sindicato := NaN\<rparr>,
      rows = [analyst_100, technician_200, manager_100]\<rparr>"

definition rates_example :: frame where
  "rates_example =
     \<lparr>columns = no_columns\<lparr>SINDICATO := NaN, VALOR_DIA := NaN\<rparr>,
      rows = [no_columns\<lparr>SINDICATO := Val ''SINDPD SP'', VALOR_DIA := Val (75 / 2)\<rparr>]\<rparr>"

definition workdays_example :: frame where
  "workdays_example =
     \<lparr>columns = no_columns\<lparr>SINDICATO := NaN, DIAS_UTEIS := NaN\<rparr>,
      rows = [no_columns\<lparr>SINDICATO := Val ''SINDPD SP'', DIAS_UTEIS := Val 21\<rparr>]\<rparr>"

definition roster_only_state :: VRState where
  "roster_only_state =
     \<lparr>raw_files = Some [''ativos'' \<mapsto> roster_example],
      consolidated_df = None, validated_df = None, calculated_df = None,
      total_employees = 3, errors = Some [], processing_stage = ''ingestion_complete'',
      success = True\<rparr>"

definition complete_state :: VRState where
  "complete_state =
     \<lparr>raw_files = Some [''ativos'' \<mapsto> roster_example, ''base_sindicato'' \<mapsto> rates_example,
                         ''base_dias_uteis'' \<mapsto> workdays_example],
      consolidated_df = None, validated_df = None, calculated_df = None,
      total_employees = 3, errors = Some [], processing_stage = ''ingestion_complete'',
      success = True\<rparr>"

definition complete_files :: "string \<rightharpoonup> frame" where
  "complete_files = [''ativos'' \<mapsto> roster_example, ''base_sindicato'' \<mapsto> rates_example,
                     ''base_dias_uteis'' \<mapsto> workdays_example]"

text \<open>A run state whose raw files lack the roster.\<close>

definition no_roster_state :: VRState where
  "no_roster_state =
     \<lparr>raw_files = Some [''ferias'' \<mapsto> \<lparr>columns = no_columns, rows = []\<rparr>],
      consolidated_df = None, validated_df = None, calculated_df = None,
      total_employees = 0, errors = Some [], processing_stage = ''ingestion_complete'',
      success = True\<rparr>"

text \<open>
  An employee on vacation for 21 of 22 contractual days, whose daily rate is the double
  that \<open>20.916\<close> reads as, and a validated table holding that employee alone.
\<close>

definition drift_example :: row where
  "drift_example =
     no_columns\<lparr>MATRICULA := Val 3001, Sindicato := Val ''SINDPD SP'',
                VALOR_DIA := Val (5887330612880081 / 281474976710656),
                DIAS_UTEIS_SINDICATO := Val 22, TIPO_CALCULO := Val ''FERIAS'',
                DIAS_FERIAS := Val 21\<rparr>"

definition drift_table :: frame where
  "drift_table =
     \<lparr>columns = no_columns\<lparr>MATRICULA := NaN, Sindicato := NaN, VALOR_DIA := NaN,
                            DIAS_UTEIS_SINDICATO := NaN, TIPO_CALCULO := NaN, DIAS_FERIAS := NaN\<rparr>,
      rows = [drift_example]\<rparr>"

section \<open>Properties\<close>

subsection \<open>Paid days\<close>

text \<open>
  C2, as the code has it.  For a record of the prorated regime (TIPO_CALCULO
  \<open>'PROPORCIONAL'\<close>) with a cutoff date and a contractual base \<open>b\<close> (of magnitude up to
  \<open>2^53\<close>, where the product with 0.5 is exact): when the cutoff's day of the month is at
  most 15 the paid days are \<open>max(1, int(b * 0.5))\<close>, the half cut off to a whole number,
  which is \<open>max(1, b div 2)\<close>; when it is later than the 15th they are \<open>b\<close>.
\<close>

theorem prorated_paid_days:
  assumes "TIPO_CALCULO e = Val ''PROPORCIONAL''"
    and "DATA_LIMITE_CALCULO e = Val d"
    and "DIAS_UTEIS_SINDICATO e = Val b"
    and "\<bar>b\<bar> \<le> 2 ^ 53"
  shows "calculate_individual_workdays e = (if day d \<le> 15 then max 1 (b div 2) else b)"
  using assms
  by (auto simp: calculate_individual_workdays_def get_default_def int_of_half_def Let_def)

theorem prorated_paid_days_witness:
  "calculate_individual_workdays prorated_example = 11"
  using prorated_paid_days [of prorated_example "\<lparr>year = 2025, month = 5, day = 10\<rparr>" 23]
  by (simp add: prorated_example_def no_columns_def)

text \<open>
  C2 as the specification words it asks for \<open>max(1, round(b * 0.5))\<close>.  A base of 23
  days gives 11.5, which rounds to 12 both half up and half to even; the code pays 11.
\<close>

theorem prorated_round_counterexample:
  "calculate_individual_workdays prorated_example \<noteq> max 1 (round ((23 :: rat) * (1 / 2)))"
  by (simp add: calculate_individual_workdays_def get_default_def int_of_half_def Let_def
      prorated_example_def no_columns_def round_def)

text \<open>
  C3.  For a record of the vacation regime (TIPO_CALCULO \<open>'FERIAS'\<close>) with contractual
  base \<open>b\<close> and \<open>f \<ge> 0\<close> vacation days, the paid days are \<open>max(0, b - f)\<close>, both
  as \<open>_calculate_individual_workdays\<close> returns them and as the engine stores them in
  DIAS_CALCULO, and as \<open>calculate_vacation_adjustment\<close> computes them; when \<open>f > b\<close>
  they are 0, and they are never negative.
\<close>

theorem vacation_paid_days:
  assumes "TIPO_CALCULO e = Val ''FERIAS''"
    and "DIAS_UTEIS_SINDICATO e = Val b"
    and "DIAS_FERIAS e = Val f"
    and "0 \<le> f"
  shows "calculate_individual_workdays e = max 0 (b - f)
       \<and> DIAS_CALCULO (calculate_employee fl e) = Val (max 0 (b - f))
       \<and> calculate_vacation_adjustment b f = max 0 (b - f)
       \<and> (f > b \<longrightarrow> calculate_individual_workdays e = 0)
       \<and> 0 \<le> calculate_individual_workdays e"
proof -
  have w: "calculate_individual_workdays e = max 0 (b - f)"
    using assms by (simp add: calculate_individual_workdays_def get_default_def Let_def)
  have "\<exists>s. generate_employee_observations fl e (max 0 (b - f))
               (get_daily_value_for_employee e) = Inr s"
    using assms by (simp add: generate_employee_observations_def get_default_def Let_def)
  then have "DIAS_CALCULO (calculate_employee fl e) = Val (max 0 (b - f))"
    using w by (auto simp: calculate_employee_def Let_def)
  then show ?thesis using w by (simp add: calculate_vacation_adjustment_def)
qed

theorem vacation_paid_days_witness:
  "calculate_individual_workdays vacation_example = 0
   \<and> DIAS_CALCULO (calculate_employee decimal_ops vacation_example) = Val 0"
  using vacation_paid_days [of vacation_example 22 30 decimal_ops]
  by (simp add: vacation_example_def no_columns_def)

subsection \<open>The calculation stage\<close>

lemma has_column_assign_other:
  "has_column MATRICULA (assign OBSERVACOES_update a
                 (assign DESCONTO_PROFISSIONAL_update b
                   (assign CUSTO_EMPRESA_update c
                     (assign VALOR_TOTAL_VR_update d
                       (assign DIAS_CALCULO_update e df))))) = has_column MATRICULA df"
  by (simp add: has_column_def assign_def)

text \<open>
  C5.  When the validated table has at least one row and the identifier column,
  \<open>CalculationAgent.execute\<close> ends as a failed stage: \<open>success\<close> is false, the stage
  is \<open>'calculation_failed'\<close> and an error tagged \<open>'calculation'\<close> is appended, because
  reading \<open>workdays\<close> raises \<open>NameError\<close>.  By then \<open>calculated_df\<close> holds the
  complete result: every row of the validated table, computed by the body of the loop.
\<close>

theorem calculation_fails_after_storing:
  assumes "validated_df state = Some df"
    and "rows df \<noteq> []"
    and "has_column MATRICULA df"
  shows "\<exists>df'. calculate_individual_benefits fl df = Inr df'
           \<and> length (rows df') = length (rows df)
           \<and> (\<forall>i < length (rows df).
                 rows df' ! i =
                   calculate_employee fl
                     ((rows df ! i)\<lparr>DIAS_CALCULO := Val 0, VALOR_TOTAL_VR := Val 0,
                                    CUSTO_EMPRESA := Val 0, DESCONTO_PROFISSIONAL := Val 0,
                                    OBSERVACOES := Val []\<rparr>))
           \<and> calculation_execute fl state =
               state\<lparr>calculated_df := Some df',
                     errors := Some ((case errors state of None \<Rightarrow> [] | Some es \<Rightarrow> es)
                                     @ [(''calculation'', NameError ''workdays'')]),
                     success := False,
                     processing_stage := ''calculation_failed''\<rparr>"
proof -
  let ?df0 = "assign OBSERVACOES_update []
                 (assign DESCONTO_PROFISSIONAL_update 0
                   (assign CUSTO_EMPRESA_update 0
                     (assign VALOR_TOTAL_VR_update 0
                       (assign DIAS_CALCULO_update 0 df))))"
  let ?df' = "?df0\<lparr>rows := map (calculate_employee fl) (rows ?df0)\<rparr>"
  have b: "calculate_individual_benefits fl df = Inr ?df'"
    using assms(3) by (simp add: calculate_individual_benefits_def has_column_assign_other Let_def)
  have r: "rows ?df0 = map (\<lambda>r. r\<lparr>DIAS_CALCULO := Val 0, VALOR_TOTAL_VR := Val 0,
                                    CUSTO_EMPRESA := Val 0, DESCONTO_PROFISSIONAL := Val 0,
                                    OBSERVACOES := Val []\<rparr>) (rows df)"
    by (simp add: assign_def)
  have e: "calculation_execute fl state = state\<lparr>calculated_df := Some ?df',
                     errors := Some ((case errors state of None \<Rightarrow> [] | Some es \<Rightarrow> es)
                                     @ [(''calculation'', NameError ''workdays'')]),
                     success := False,
                     processing_stage := ''calculation_failed''\<rparr>"
    using assms(1,2) b
    by (simp add: calculation_execute_def calculation_try_def empty_def fail_stage_def)
  show ?thesis
    apply (rule exI [of _ ?df'])
    apply (intro conjI)
       apply (rule b)
      apply (simp add: r)
     apply (simp add: r)
    apply (rule e)
    done
qed

theorem calculation_fails_after_storing_witness:
  "success (calculation_execute decimal_ops one_row_state) = False
   \<and> processing_stage (calculation_execute decimal_ops one_row_state) = ''calculation_failed''
   \<and> errors (calculation_execute decimal_ops one_row_state)
       = Some [(''calculation'', NameError ''workdays'')]
   \<and> (\<exists>df'. calculated_df (calculation_execute decimal_ops one_row_state) = Some df'
        \<and> DIAS_CALCULO (rows df' ! 0) = Val 22 \<and> VALOR_TOTAL_VR (rows df' ! 0) = Val 770)"
  using calculation_fails_after_storing [of one_row_state
      "\<lparr>columns = no_columns\<lparr>MATRICULA := NaN\<rparr>, rows = [no_columns\<lparr>MATRICULA := Val 1001\<rparr>]\<rparr>"
      decimal_ops]
  apply (simp add: one_row_state_def has_column_def no_columns_def)
  apply (elim exE conjE)
  apply (simp add: calculate_employee_def calculate_individual_workdays_def get_default_def
     get_daily_value_for_employee_def str_get_def generate_employee_observations_def Let_def
     decimal_ops_def)
  done

subsection \<open>Category exclusion\<close>

lemma sublist_join:
  "c \<in> set ps \<Longrightarrow> sublist c (join sep ps)"
proof (induction sep ps rule: join.induct)
  case (1 sep)
  then show ?case by simp
next
  case (2 sep p)
  then show ?case by simp
next
  case (3 sep p q ps)
  show ?case
  proof (cases "c = p")
    case True
    then show ?thesis by (simp add: sublist_append_rightI)
  next
    case False
    with 3 have "sublist c (join sep (q # ps))" by simp
    then show ?thesis by (simp add: sublist_append)
  qed
qed

text \<open>
  C6.  The reason of an excluded record is the list of all its causes joined by \<open>'; '\<close>:
  each of the four flags that is set, a job title that contains an excluded position, and
  a work status of the disqualifying list puts its own text into the reason, whatever other
  causes hold at the same time; and a record with any cause is marked not eligible with that
  reason and is not among the rows the step returns.
\<close>

theorem exclusion_reason_lists_every_cause:
  assumes "row \<in> set (rows df)"
    and "reason = join ''; '' (motivos_of row)"
    and "cargo = upper (str_get (TITULO_DO_CARGO row))"
    and "situacao = upper (str_get (DESC_SITUACAO row))"
  shows "(truthy (IS_ESTAGIARIO row) \<longrightarrow> sublist (''Estagi'' @ [CHR 0xE1] @ ''rio'') reason)
       \<and> (truthy (IS_APRENDIZ row) \<longrightarrow> sublist ''Aprendiz'' reason)
       \<and> (truthy (IS_AFASTADO row) \<longrightarrow> sublist ''Afastado'' reason)
       \<and> (truthy (IS_EXTERIOR row) \<longrightarrow> sublist ''Trabalha no exterior'' reason)
       \<and> (sublist ''DIRETOR'' cargo \<or> sublist ''GERENTE GERAL'' cargo \<or> sublist ''PRESIDENTE'' cargo
            \<longrightarrow> sublist (''Cargo exclu'' @ [CHR 0xED] @ ''do'') reason)
       \<and> (situacao \<in> {''LICEN'' @ [CHR 0xC7] @ ''A MATERNIDADE'',
                        ''AUX'' @ [CHR 0xCD] @ ''LIO DOEN'' @ [CHR 0xC7] @ ''A'', ''ATESTADO''}
            \<longrightarrow> sublist (''Situa'' @ [CHR 0xE7, CHR 0xE3] @ ''o: '' @ situacao) reason)
       \<and> (truthy (IS_ESTAGIARIO row) \<or> truthy (IS_APRENDIZ row) \<or> truthy (IS_AFASTADO row)
            \<or> truthy (IS_EXTERIOR row)
            \<or> sublist ''DIRETOR'' cargo \<or> sublist ''GERENTE GERAL'' cargo \<or> sublist ''PRESIDENTE'' cargo
            \<or> situacao \<in> {''LICEN'' @ [CHR 0xC7] @ ''A MATERNIDADE'',
                        ''AUX'' @ [CHR 0xCD] @ ''LIO DOEN'' @ [CHR 0xC7] @ ''A'', ''ATESTADO''}
            \<longrightarrow> (row, False, reason) \<in> set (exclusion_marks df)
                \<and> row \<notin> set (rows (apply_individual_exclusion_rules df)))"
proof -
  have marks: "motivos_of row \<noteq> [] \<Longrightarrow> (row, False, reason) \<in> set (exclusion_marks df)"
    using assms(1,2) by (force simp: exclusion_marks_def Let_def)
  have out: "motivos_of row \<noteq> [] \<Longrightarrow> row \<notin> set (rows (apply_individual_exclusion_rules df))"
    by (auto simp: apply_individual_exclusion_rules_def exclusion_marks_def Let_def
        split: if_splits)
  have c1: "truthy (IS_ESTAGIARIO row) \<Longrightarrow> ''Estagi'' @ [CHR 0xE1] @ ''rio'' \<in> set (motivos_of row)"
    by (simp add: motivos_of_def Let_def)
  have c2: "truthy (IS_APRENDIZ row) \<Longrightarrow> ''Aprendiz'' \<in> set (motivos_of row)"
    by (simp add: motivos_of_def Let_def)
  have c3: "truthy (IS_AFASTADO row) \<Longrightarrow> ''Afastado'' \<in> set (motivos_of row)"
    by (simp add: motivos_of_def Let_def)
  have c4: "truthy (IS_EXTERIOR row) \<Longrightarrow> ''Trabalha no exterior'' \<in> set (motivos_of row)"
    by (simp add: motivos_of_def Let_def)
  have c5: "sublist ''DIRETOR'' cargo \<or> sublist ''GERENTE GERAL'' cargo \<or> sublist ''PRESIDENTE'' cargo
            \<Longrightarrow> ''Cargo exclu'' @ [CHR 0xED] @ ''do'' \<in> set (motivos_of row)"
    using assms(3) by (simp add: motivos_of_def Let_def)
  have c6: "situacao \<in> {''LICEN'' @ [CHR 0xC7] @ ''A MATERNIDADE'',
                        ''AUX'' @ [CHR 0xCD] @ ''LIO DOEN'' @ [CHR 0xC7] @ ''A'', ''ATESTADO''}
            \<Longrightarrow> ''Situa'' @ [CHR 0xE7, CHR 0xE3] @ ''o: '' @ situacao \<in> set (motivos_of row)"
    using assms(4) by (auto simp: motivos_of_def Let_def)
  have ne: "c \<in> set (motivos_of row) \<Longrightarrow> motivos_of row \<noteq> []" for c by auto
  have sj: "c \<in> set (motivos_of row) \<Longrightarrow> sublist c reason" for c
    unfolding assms(2) by (rule sublist_join)
  have r1: "truthy (IS_ESTAGIARIO row) \<longrightarrow> sublist (''Estagi'' @ [CHR 0xE1] @ ''rio'') reason"
    using c1 sj by blast
  have r2: "truthy (IS_APRENDIZ row) \<longrightarrow> sublist ''Aprendiz'' reason"
    using c2 sj by blast
  have r3: "truthy (IS_AFASTADO row) \<longrightarrow> sublist ''Afastado'' reason"
    using c3 sj by blast
  have r4: "truthy (IS_EXTERIOR row) \<longrightarrow> sublist ''Trabalha no exterior'' reason"
    using c4 sj by blast
  have r5: "sublist ''DIRETOR'' cargo \<or> sublist ''GERENTE GERAL'' cargo \<or> sublist ''PRESIDENTE'' cargo
            \<longrightarrow> sublist (''Cargo exclu'' @ [CHR 0xED] @ ''do'') reason"
    using c5 sj by blast
  have r6: "situacao \<in> {''LICEN'' @ [CHR 0xC7] @ ''A MATERNIDADE'',
                        ''AUX'' @ [CHR 0xCD] @ ''LIO DOEN'' @ [CHR 0xC7] @ ''A'', ''ATESTADO''}
            \<longrightarrow> sublist (''Situa'' @ [CHR 0xE7, CHR 0xE3] @ ''o: '' @ situacao) reason"
    using c6 sj by blast
  have any: "truthy (IS_ESTAGIARIO row) \<or> truthy (IS_APRENDIZ row) \<or> truthy (IS_AFASTADO row)
            \<or> truthy (IS_EXTERIOR row)
            \<or> sublist ''DIRETOR'' cargo \<or> sublist ''GERENTE GERAL'' cargo \<or> sublist ''PRESIDENTE'' cargo
            \<or> situacao \<in> {''LICEN'' @ [CHR 0xC7] @ ''A MATERNIDADE'',
                        ''AUX'' @ [CHR 0xCD] @ ''LIO DOEN'' @ [CHR 0xC7] @ ''A'', ''ATESTADO''}
            \<longrightarrow> motivos_of row \<noteq> []"
    using c1 [THEN ne] c2 [THEN ne] c3 [THEN ne] c4 [THEN ne] c5 [THEN ne] c6 [THEN ne]
    by blast
  from any marks out have r7: "truthy (IS_ESTAGIARIO row) \<or> truthy (IS_APRENDIZ row) \<or> truthy (IS_AFASTADO row)
            \<or> truthy (IS_EXTERIOR row)
            \<or> sublist ''DIRETOR'' cargo \<or> sublist ''GERENTE GERAL'' cargo \<or> sublist ''PRESIDENTE'' cargo
            \<or> situacao \<in> {''LICEN'' @ [CHR 0xC7] @ ''A MATERNIDADE'',
                        ''AUX'' @ [CHR 0xCD] @ ''LIO DOEN'' @ [CHR 0xC7] @ ''A'', ''ATESTADO''}
            \<longrightarrow> (row, False, reason) \<in> set (exclusion_marks df)
                \<and> row \<notin> set (rows (apply_individual_exclusion_rules df))"
    by (intro impI conjI) (erule (1) impE [OF _ _ ], assumption)+
  show ?thesis
    by (intro conjI r1 r2 r3 r4 r5 r6 r7)
qed

lemma intern_director_motivos:
  "motivos_of intern_director = [''Estagi'' @ [CHR 0xE1] @ ''rio'', ''Cargo exclu'' @ [CHR 0xED] @ ''do'']"
  by code_simp

theorem exclusion_reason_lists_every_cause_witness:
  "sublist (''Estagi'' @ [CHR 0xE1] @ ''rio'') (''Estagi'' @ [CHR 0xE1] @ ''rio; Cargo exclu'' @ [CHR 0xED] @ ''do'')
   \<and> sublist (''Cargo exclu'' @ [CHR 0xED] @ ''do'') (''Estagi'' @ [CHR 0xE1] @ ''rio; Cargo exclu'' @ [CHR 0xED] @ ''do'')
   \<and> (intern_director, False, ''Estagi'' @ [CHR 0xE1] @ ''rio; Cargo exclu'' @ [CHR 0xED] @ ''do'')
        \<in> set (exclusion_marks intern_director_table)
   \<and> intern_director \<notin> set (rows (apply_individual_exclusion_rules intern_director_table))"
proof -
  have r: "intern_director \<in> set (rows intern_director_table)"
    by (simp add: intern_director_table_def)
  have j: "''Estagi'' @ [CHR 0xE1] @ ''rio; Cargo exclu'' @ [CHR 0xED] @ ''do'' = join ''; '' (motivos_of intern_director)"
    by (simp add: intern_director_motivos)
  have t: "truthy (IS_ESTAGIARIO intern_director)"
    by (simp add: intern_director_def truthy_def no_columns_def)
  have d: "sublist ''DIRETOR'' (upper (str_get (TITULO_DO_CARGO intern_director)))"
    by code_simp
  show ?thesis
    using exclusion_reason_lists_every_cause [OF r j refl refl] t d by blast
qed

subsection \<open>The dismissal rule\<close>


lemma filled_Val [simp]: "filled (Val v) = Val v"
  by (simp add: filled_def)

lemma filled_eq_Val [simp]: "filled c = Val v \<longleftrightarrow> c = Val v"
  by (cases c) (simp_all add: filled_def)

lemma filled_not_Absent [simp]: "filled c \<noteq> Absent"
  by (cases c) (simp_all add: filled_def)










lemma dismissal_row_MATRICULA [simp]: "MATRICULA (dismissal_row x) = MATRICULA x"
  by (auto simp: dismissal_row_def split: cell.splits bool.splits)






subsection \<open>Consolidation: one record per identifier\<close>

lemma keep_first_keys:
  "set (map key (keep_first key seen xs)) = set (map key xs) - set seen"
  by (induction xs arbitrary: seen) auto

lemma keep_first_distinct:
  "distinct (map key (keep_first key seen xs))"
  by (induction xs arbitrary: seen) (auto simp: keep_first_keys simp flip: set_map)

lemma keep_first_subseq:
  "subseq (keep_first key seen xs) xs"
  by (induction xs arbitrary: seen) auto

lemma keep_first_find:
  "r \<in> set (keep_first key seen xs) \<Longrightarrow> find (\<lambda>x. key x = key r) xs = Some r"
proof (induction xs arbitrary: seen)
  case Nil
  then show ?case by simp
next
  case (Cons x xs)
  show ?case
  proof (cases "key x = key r")
    case True
    have "r \<notin> set (keep_first key (key x # seen) xs)"
      using keep_first_keys [of key "key x # seen" xs] True
      by (metis DiffD2 image_eqI list.set_intros(1) set_map)
    moreover have "key x \<in> set seen \<Longrightarrow> r \<notin> set (keep_first key seen xs)"
      using keep_first_keys [of key seen xs] True
      by (metis DiffD2 image_eqI set_map)
    ultimately show ?thesis using Cons.prems True by (auto split: if_splits)
  next
    case False
    then show ?thesis using Cons by (auto split: if_splits)
  qed
qed

lemma filter_distinct_key:
  assumes "distinct (map key xs)"
  shows "filter (\<lambda>s. key s = k) xs = [] \<or> (\<exists>s. filter (\<lambda>s. key s = k) xs = [s])"
  using assms
proof (induction xs)
  case Nil
  then show ?case by simp
next
  case (Cons x xs)
  then show ?case
    by (cases "key x = k") (auto simp: filter_empty_conv image_iff)
qed

lemma merge_left_rows:
  assumes "distinct (map MATRICULA (rows right))"
    and "\<And>f r. q (col_update f r) = q r"
  shows "\<exists>h. rows (merge_left col col_update right_col base_df right) = map h (rows base_df)
           \<and> (\<forall>r. q (h r) = q r)"
proof -
  let ?m = "\<lambda>r. filter (\<lambda>s. MATRICULA s = MATRICULA r) (rows right)"
  let ?j = "\<lambda>r. case ?m r of [] \<Rightarrow> [col_update (\<lambda>_. NaN) r]
                   | ms \<Rightarrow> map (\<lambda>s. col_update (\<lambda>_. filled (right_col s)) r) ms"
  let ?h = "\<lambda>r. case ?m r of [] \<Rightarrow> col_update (\<lambda>_. NaN) r
                   | s # _ \<Rightarrow> col_update (\<lambda>_. filled (right_col s)) r"
  have one: "?j r = [?h r]" for r
    using filter_distinct_key [OF assms(1), of "MATRICULA r"] by auto
  have j: "concat (map ?j xs) = map ?h xs" for xs
    by (induction xs) (simp_all add: one)
  have qh: "q (?h r) = q r" for r
    by (simp add: assms(2) split: list.splits)
  show ?thesis
  proof (cases "has_column col base_df")
    case True
    then have "rows (merge_left col col_update right_col base_df right)
                 = map (col_update (\<lambda>_. Absent) \<circ> ?h) (rows base_df)"
      by (simp add: merge_left_def Let_def j)
    then show ?thesis
      by (intro exI [of _ "col_update (\<lambda>_. Absent) \<circ> ?h"]) (simp add: assms(2) qh)
  next
    case False
    then have "rows (merge_left col col_update right_col base_df right) = map ?h (rows base_df)"
      by (simp add: merge_left_def Let_def j)
    then show ?thesis
      by (intro exI [of _ ?h]) (simp add: qh)
  qed
qed

lemma drop_duplicates_distinct:
  "distinct (map MATRICULA (rows (drop_duplicates df)))"
  by (simp add: drop_duplicates_def keep_first_distinct)

lemma merge_left_keeps:
  assumes "distinct (map MATRICULA (rows right))"
    and "\<And>f r. q (col_update f r) = q r"
  shows "q (columns (merge_left col col_update right_col base_df right)) = q (columns base_df)"
    and "map q (rows (merge_left col col_update right_col base_df right)) = map q (rows base_df)"
proof -
  show "q (columns (merge_left col col_update right_col base_df right)) = q (columns base_df)"
    by (simp add: merge_left_def Let_def assms(2))
  obtain h where "rows (merge_left col col_update right_col base_df right) = map h (rows base_df)"
    and "\<And>r. q (h r) = q r"
    using merge_left_rows [where q = q and col_update = col_update, OF assms, of col right_col base_df] by blast
  then show "map q (rows (merge_left col col_update right_col base_df right)) = map q (rows base_df)"
    by simp
qed

lemma assign_isin_keeps:
  assumes "\<And>f r. q (flag_update f r) = q r"
  shows "q (columns (assign_isin flag_update keys base_df)) = q (columns base_df)"
    and "map q (rows (assign_isin flag_update keys base_df)) = map q (rows base_df)"
  by (simp_all add: assign_isin_def assms comp_def)

lemma mark_exclusion_keeps:
  assumes "\<And>f r. q (flag_update f r) = q r"
  shows "q (columns (mark_exclusion raw file_key flag_update base_df)) = q (columns base_df)"
    and "map q (rows (mark_exclusion raw file_key flag_update base_df)) = map q (rows base_df)"
  by (simp_all add: mark_exclusion_def
      assign_isin_keeps [where q = q and flag_update = flag_update, OF assms]
      split: option.splits)

lemma add_ferias_keeps:
  assumes "\<And>f r. q (DIAS_DE_FERIAS_update f r) = q r"
  shows "q (columns (add_ferias raw base_df)) = q (columns base_df)"
    and "map q (rows (add_ferias raw base_df)) = map q (rows base_df)"
  by (simp_all add: add_ferias_def
      merge_left_keeps [where q = q and col_update = DIAS_DE_FERIAS_update,
        OF drop_duplicates_distinct assms]
      split: option.splits)

lemma add_exclusions_keeps:
  assumes "\<And>f r. q (IS_ESTAGIARIO_update f r) = q r"
    and "\<And>f r. q (IS_APRENDIZ_update f r) = q r"
    and "\<And>f r. q (IS_AFASTADO_update f r) = q r"
    and "\<And>f r. q (IS_EXTERIOR_update f r) = q r"
  shows "q (columns (add_exclusions raw base_df)) = q (columns base_df)"
    and "map q (rows (add_exclusions raw base_df)) = map q (rows base_df)"
  by (simp_all add: add_exclusions_def
      mark_exclusion_keeps [where q = q and flag_update = IS_ESTAGIARIO_update, OF assms(1)]
      mark_exclusion_keeps [where q = q and flag_update = IS_APRENDIZ_update, OF assms(2)]
      mark_exclusion_keeps [where q = q and flag_update = IS_AFASTADO_update, OF assms(3)]
      mark_exclusion_keeps [where q = q and flag_update = IS_EXTERIOR_update, OF assms(4)])

lemma add_desligados_keeps:
  assumes "\<And>f r. q (DATA_DEMISSAO_update f r) = q r"
    and "\<And>f r. q (IS_DESLIGADO_update f r) = q r"
    and "add_desligados raw base_df = Inr df"
  shows "q (columns df) = q (columns base_df)"
    and "map q (rows df) = map q (rows base_df)"
  using assms(3)
  by (auto simp: add_desligados_def
      assign_isin_keeps [where q = q and flag_update = IS_DESLIGADO_update, OF assms(2)]
      merge_left_keeps [where q = q and col_update = DATA_DEMISSAO_update,
        OF drop_duplicates_distinct assms(1)]
      split: option.splits if_splits)

lemma add_admissao_keeps:
  assumes "\<And>f r. q (DATA_ADMISSAO_update f r) = q r"
  shows "q (columns (add_admissao raw base_df)) = q (columns base_df)"
    and "map q (rows (add_admissao raw base_df)) = map q (rows base_df)"
  by (simp_all add: add_admissao_def
      merge_left_keeps [where q = q and col_update = DATA_ADMISSAO_update,
        OF drop_duplicates_distinct assms]
      split: option.splits)

lemma consolidate_employee_data_keeps:
  assumes "\<And>f r. q (DIAS_DE_FERIAS_update f r) = q r"
    and "\<And>f r. q (IS_ESTAGIARIO_update f r) = q r"
    and "\<And>f r. q (IS_APRENDIZ_update f r) = q r"
    and "\<And>f r. q (IS_AFASTADO_update f r) = q r"
    and "\<And>f r. q (IS_EXTERIOR_update f r) = q r"
    and "\<And>f r. q (DATA_DEMISSAO_update f r) = q r"
    and "\<And>f r. q (IS_DESLIGADO_update f r) = q r"
    and "\<And>f r. q (DATA_ADMISSAO_update f r) = q r"
    and "consolidate_employee_data base_df raw = Inr df"
  shows "q (columns df) = q (columns base_df)"
    and "map q (rows df) = map q (rows base_df)"
proof -
  obtain d where d: "add_desligados raw (add_exclusions raw (add_ferias raw base_df)) = Inr d"
    and df: "df = add_admissao raw d"
    using assms(9) by (auto simp: consolidate_employee_data_def split: sum.splits)
  show "q (columns df) = q (columns base_df)"
    by (simp add: df add_admissao_keeps(1) [where q = q, OF assms(8)]
        add_desligados_keeps(1) [where q = q, OF assms(6,7) d]
        add_exclusions_keeps(1) [where q = q, OF assms(2-5)] add_ferias_keeps(1) [where q = q, OF assms(1)])
  show "map q (rows df) = map q (rows base_df)"
    by (simp add: df add_admissao_keeps(2) [where q = q, OF assms(8)]
        add_desligados_keeps(2) [where q = q, OF assms(6,7) d]
        add_exclusions_keeps(2) [where q = q, OF assms(2-5)] add_ferias_keeps(2) [where q = q, OF assms(1)])
qed

lemma dict_zip_snoc:
  "length ks = length vs \<Longrightarrow>
   dict_zip (ks @ [ka]) (vs @ [va]) k = (if ka = k then Some va else dict_zip ks vs k)"
  by (simp add: dict_zip_def)

lemma map_fillna_reference_value:
  "map_fillna (dict_zip (map SINDICATO (rows reference)) (map col (rows reference))) fill sindicato
     = reference_value col reference fill sindicato"
proof -
  have "map_fillna (dict_zip (map SINDICATO xs) (map col xs)) fill sindicato
     = (case filter (\<lambda>s. SINDICATO s = sindicato) xs of
        [] \<Rightarrow> Val fill
      | m # ms \<Rightarrow> (case col (last (m # ms)) of Val v \<Rightarrow> Val v | _ \<Rightarrow> Val fill))" for xs
  proof (induction xs rule: rev_induct)
    case Nil
    then show ?case by (simp add: map_fillna_def dict_zip_def)
  next
    case (snoc a xs)
    have z: "dict_zip (map SINDICATO (xs @ [a])) (map col (xs @ [a])) sindicato
               = (if SINDICATO a = sindicato then Some (col a)
                  else dict_zip (map SINDICATO xs) (map col xs) sindicato)"
      using dict_zip_snoc [of "map SINDICATO xs" "map col xs" "SINDICATO a" "col a" sindicato]
      by simp
    show ?case
    proof (cases "SINDICATO a = sindicato")
      case True
      have e: "dict_zip (map SINDICATO (xs @ [a])) (map col (xs @ [a])) sindicato = Some (col a)"
        unfolding z using True by simp
      have "map_fillna (dict_zip (map SINDICATO (xs @ [a])) (map col (xs @ [a]))) fill sindicato
                   = (case col a of Val v \<Rightarrow> Val v | _ \<Rightarrow> Val fill)"
        unfolding map_fillna_def e by (simp split: cell.splits)
      moreover have "(case filter (\<lambda>s. SINDICATO s = sindicato) (xs @ [a]) of
                        [] \<Rightarrow> Val fill
                      | m # ms \<Rightarrow> (case col (last (m # ms)) of Val v \<Rightarrow> Val v | _ \<Rightarrow> Val fill))
                     = (case col a of Val v \<Rightarrow> Val v | _ \<Rightarrow> Val fill)"
        using True by (cases "filter (\<lambda>s. SINDICATO s = sindicato) xs") simp_all
      ultimately show ?thesis by simp
    next
      case False
      have e: "dict_zip (map SINDICATO (xs @ [a])) (map col (xs @ [a])) sindicato
                 = dict_zip (map SINDICATO xs) (map col xs) sindicato"
        unfolding z using False by simp
      have "map_fillna (dict_zip (map SINDICATO (xs @ [a])) (map col (xs @ [a]))) fill sindicato
              = map_fillna (dict_zip (map SINDICATO xs) (map col xs)) fill sindicato"
        unfolding map_fillna_def e by simp
      then show ?thesis
        using snoc False by simp
    qed
  qed
  then show ?thesis by (simp add: reference_value_def)
qed

lemma consolidation_success:
  assumes "raw_files state = Some raw"
    and "raw ''ativos'' = Some ativos"
    and "has_column MATRICULA ativos"
    and "success (consolidation_execute state)"
  shows "\<exists>df. consolidate_employee_data (drop_duplicates ativos) raw = Inr df
           \<and> consolidation_execute state =
               state\<lparr>consolidated_df := Some (add_workdays_by_union (add_union_values df raw) raw),
                     total_employees :=
                       length (rows (add_workdays_by_union (add_union_values df raw) raw)),
                     processing_stage := ''consolidation_complete'',
                     success := True\<rparr>"
proof -
  have ne: "raw \<noteq> Map.empty" using assms(2) by auto
  show ?thesis
  proof (cases "consolidate_employee_data (drop_duplicates ativos) raw")
    case (Inl e)
    then have "\<not> success (consolidation_execute state)"
      using assms(1-3) ne
      by (simp add: consolidation_execute_def consolidation_try_def fail_stage_def)
    then show ?thesis using assms(4) by simp
  next
    case (Inr df)
    then show ?thesis
      using assms(1-3) ne
      by (simp add: consolidation_execute_def consolidation_try_def Let_def)
  qed
qed

lemma add_union_values_keeps:
  assumes "\<And>f r. q (VALOR_DIA_update f r) = q r"
  shows "q (columns (add_union_values df raw)) = q (columns df)"
    and "map q (rows (add_union_values df raw)) = map q (rows df)"
  by (simp_all add: add_union_values_def Let_def assms comp_def split: option.splits)

lemma add_workdays_by_union_keeps:
  assumes "\<And>f r. q (DIAS_UTEIS_SINDICATO_update f r) = q r"
  shows "q (columns (add_workdays_by_union df raw)) = q (columns df)"
    and "map q (rows (add_workdays_by_union df raw)) = map q (rows df)"
  by (simp_all add: add_workdays_by_union_def Let_def assms comp_def split: option.splits)

lemma consolidated_keeps:
  assumes "\<And>f r. q (DIAS_DE_FERIAS_update f r) = q r"
    and "\<And>f r. q (IS_ESTAGIARIO_update f r) = q r"
    and "\<And>f r. q (IS_APRENDIZ_update f r) = q r"
    and "\<And>f r. q (IS_AFASTADO_update f r) = q r"
    and "\<And>f r. q (IS_EXTERIOR_update f r) = q r"
    and "\<And>f r. q (DATA_DEMISSAO_update f r) = q r"
    and "\<And>f r. q (IS_DESLIGADO_update f r) = q r"
    and "\<And>f r. q (DATA_ADMISSAO_update f r) = q r"
    and "consolidate_employee_data (drop_duplicates ativos) raw = Inr df"
  shows "q (columns df) = q (columns ativos)"
    and "map q (rows df) = map q (keep_first MATRICULA [] (rows ativos))"
  using consolidate_employee_data_keeps [where q = q, OF assms]
  by (simp_all add: drop_duplicates_def)

lemma roster_fields_consolidated:
  assumes "consolidate_employee_data (drop_duplicates ativos) raw = Inr df"
  shows "roster_fields (columns df) = roster_fields (columns ativos)"
    and "map roster_fields (rows df) = map roster_fields (keep_first MATRICULA [] (rows ativos))"
proof -
  show "roster_fields (columns df) = roster_fields (columns ativos)"
    by (rule consolidated_keeps(1) [where q = roster_fields, OF _ _ _ _ _ _ _ _ assms])
       (simp_all add: roster_fields_def)
  show "map roster_fields (rows df) = map roster_fields (keep_first MATRICULA [] (rows ativos))"
    by (rule consolidated_keeps(2) [where q = roster_fields, OF _ _ _ _ _ _ _ _ assms])
       (simp_all add: roster_fields_def)
qed

lemma map_MATRICULA_roster_fields:
  "map MATRICULA xs = map fst (map roster_fields xs)"
  by (simp add: roster_fields_def comp_def)

text \<open>
  C7.  When the roster has the identifier column and consolidation succeeds, the
  consolidated table has one record for each identifier of the roster and no identifier
  twice; each record carries the roster columns of the first row of the roster that has its
  identifier; and the records stand in the order of those first rows.
\<close>

theorem one_record_per_identifier:
  assumes "raw_files state = Some raw"
    and "raw ''ativos'' = Some ativos"
    and "has_column MATRICULA ativos"
    and "success (consolidation_execute state)"
  shows "\<exists>out. consolidated_df (consolidation_execute state) = Some out
           \<and> distinct (map MATRICULA (rows out))
           \<and> set (map MATRICULA (rows out)) = set (map MATRICULA (rows ativos))
           \<and> (\<forall>w \<in> set (rows out).
                 \<exists>first. find (\<lambda>r. MATRICULA r = MATRICULA w) (rows ativos) = Some first
                       \<and> roster_fields w = roster_fields first)
           \<and> subseq (map roster_fields (rows out)) (map roster_fields (rows ativos))"
proof -
  obtain df where df: "consolidate_employee_data (drop_duplicates ativos) raw = Inr df"
    and ex: "consolidation_execute state =
               state\<lparr>consolidated_df := Some (add_workdays_by_union (add_union_values df raw) raw),
                     total_employees :=
                       length (rows (add_workdays_by_union (add_union_values df raw) raw)),
                     processing_stage := ''consolidation_complete'',
                     success := True\<rparr>"
    using consolidation_success [OF assms] by blast
  let ?out = "add_workdays_by_union (add_union_values df raw) raw"
  let ?kept = "keep_first MATRICULA [] (rows ativos)"
  have rf1: "map roster_fields (rows (add_union_values df raw)) = map roster_fields (rows df)"
    by (rule add_union_values_keeps(2)) (simp add: roster_fields_def)
  have rf2: "map roster_fields (rows ?out) = map roster_fields (rows (add_union_values df raw))"
    by (rule add_workdays_by_union_keeps(2)) (simp add: roster_fields_def)
  have rf: "map roster_fields (rows ?out) = map roster_fields ?kept"
    by (simp only: rf2 rf1 roster_fields_consolidated(2) [OF df])
  have m: "map MATRICULA (rows ?out) = map MATRICULA ?kept"
    by (simp only: map_MATRICULA_roster_fields rf)
  have d: "distinct (map MATRICULA (rows ?out))"
    by (simp only: m keep_first_distinct)
  have s: "set (map MATRICULA (rows ?out)) = set (map MATRICULA (rows ativos))"
    using keep_first_keys [of MATRICULA "[]" "rows ativos"] by (simp only: m) simp
  have f: "\<exists>first. find (\<lambda>r. MATRICULA r = MATRICULA w) (rows ativos) = Some first
                       \<and> roster_fields w = roster_fields first"
    if w: "w \<in> set (rows ?out)" for w
  proof -
    obtain i where i: "i < length (rows ?out)" "w = rows ?out ! i"
      using w by (auto simp: in_set_conv_nth)
    have l: "length (rows ?out) = length ?kept"
      using arg_cong [OF rf, of length] by simp
    have "map roster_fields (rows ?out) ! i = map roster_fields ?kept ! i"
      by (simp only: rf)
    then have e: "roster_fields w = roster_fields (?kept ! i)"
      using i l by simp
    have "?kept ! i \<in> set ?kept" using i l by simp
    then have "find (\<lambda>r. MATRICULA r = MATRICULA (?kept ! i)) (rows ativos) = Some (?kept ! i)"
      by (rule keep_first_find)
    moreover have "MATRICULA w = MATRICULA (?kept ! i)"
      using e by (simp add: roster_fields_def)
    ultimately show ?thesis using e by auto
  qed
  have q: "subseq (map roster_fields (rows ?out)) (map roster_fields (rows ativos))"
    unfolding rf by (rule subseq_map) (rule keep_first_subseq)
  have c: "consolidated_df (consolidation_execute state) = Some ?out"
    by (simp add: ex)
  have f': "\<forall>w \<in> set (rows ?out).
                 \<exists>first. find (\<lambda>r. MATRICULA r = MATRICULA w) (rows ativos) = Some first
                       \<and> roster_fields w = roster_fields first"
    using f by (rule ballI)
  show ?thesis
    by (rule exI [of _ ?out]) (intro conjI c d s f' q)
qed

lemma roster_example_dedup:
  "drop_duplicates roster_example =
     \<lparr>columns = columns roster_example, rows = [analyst_100, technician_200]\<rparr>"
  by (simp add: drop_duplicates_def roster_example_def analyst_100_def technician_200_def
      manager_100_def no_columns_def)

lemma roster_only_consolidated:
  "consolidation_execute roster_only_state =
     roster_only_state
       \<lparr>consolidated_df := Some \<lparr>columns = columns roster_example,
                                 rows = [analyst_100, technician_200]\<rparr>,
        total_employees := 2,
        processing_stage := ''consolidation_complete'',
        success := True\<rparr>"
proof -
  have h: "has_column MATRICULA roster_example"
    by (simp add: has_column_def roster_example_def no_columns_def)
  have e: "[''ativos'' \<mapsto> roster_example] \<noteq> Map.empty" by simp
  have c: "consolidate_employee_data (drop_duplicates roster_example) [''ativos'' \<mapsto> roster_example]
             = Inr (drop_duplicates roster_example)"
    by (simp add: consolidate_employee_data_def add_ferias_def add_exclusions_def
        mark_exclusion_def add_desligados_def add_admissao_def)
  have u: "add_workdays_by_union (add_union_values (drop_duplicates roster_example)
              [''ativos'' \<mapsto> roster_example]) [''ativos'' \<mapsto> roster_example]
             = drop_duplicates roster_example"
    by (simp add: add_workdays_by_union_def add_union_values_def)
  show ?thesis
    using h e c u
    by (simp add: consolidation_execute_def consolidation_try_def roster_only_state_def
        roster_example_dedup Let_def)
qed

lemma roster_only_facts:
  "raw_files roster_only_state = Some [''ativos'' \<mapsto> roster_example]"
  "[''ativos'' \<mapsto> roster_example] ''ativos'' = Some roster_example"
  "has_column MATRICULA roster_example"
  "success (consolidation_execute roster_only_state)"
  by (simp_all add: roster_only_consolidated)
     (simp_all add: roster_only_state_def has_column_def roster_example_def no_columns_def)

theorem one_record_per_identifier_witness:
  "\<exists>out. consolidated_df (consolidation_execute roster_only_state) = Some out
     \<and> distinct (map MATRICULA (rows out))
     \<and> set (map MATRICULA (rows out)) = {Val 100, Val 200}
     \<and> (\<forall>w \<in> set (rows out). MATRICULA w = Val 100 \<longrightarrow> TITULO_DO_CARGO w = Val ''Analista'')"
proof -
  obtain out where o: "consolidated_df (consolidation_execute roster_only_state) = Some out"
    "distinct (map MATRICULA (rows out))"
    "set (map MATRICULA (rows out)) = set (map MATRICULA (rows roster_example))"
    "\<forall>w \<in> set (rows out).
        \<exists>first. find (\<lambda>r. MATRICULA r = MATRICULA w) (rows roster_example) = Some first
              \<and> roster_fields w = roster_fields first"
    using one_record_per_identifier [OF roster_only_facts] by blast
  have s: "set (map MATRICULA (rows roster_example)) = {Val 100, Val 200}"
    by (auto simp: roster_example_def analyst_100_def technician_200_def manager_100_def
        no_columns_def)
  have f: "find (\<lambda>r. MATRICULA r = Val 100) (rows roster_example) = Some analyst_100"
    by (simp add: roster_example_def analyst_100_def no_columns_def)
  have t: "TITULO_DO_CARGO w = Val ''Analista''"
    if w: "w \<in> set (rows out)" "MATRICULA w = Val 100" for w
  proof -
    obtain first where "find (\<lambda>r. MATRICULA r = MATRICULA w) (rows roster_example) = Some first"
      "roster_fields w = roster_fields first"
      using o(4) w(1) by blast
    then have "roster_fields w = roster_fields analyst_100"
      using f w(2) by simp
    then show ?thesis
      by (simp add: roster_fields_def analyst_100_def no_columns_def)
  qed
  show ?thesis
    using o(1,2) o(3) [unfolded s] t by blast
qed

subsection \<open>Consolidation: the stage fails without the identifier\<close>

text \<open>
  C8.  When the state has no raw files, or they have no \<open>'ativos'\<close> table, or that table
  has no MATRICULA column, \<open>ConsolidationAgent.execute\<close> returns the state it was given
  with an error tagged \<open>'consolidation'\<close> appended, \<open>success\<close> false and the stage
  \<open>'consolidation_failed'\<close>; nothing else changes, so no consolidated table is stored.
\<close>

theorem consolidation_fails_without_identifier:
  assumes "raw_files state = None
           \<or> (\<exists>raw. raw_files state = Some raw
                  \<and> (raw ''ativos'' = None
                       \<or> (\<exists>ativos. raw ''ativos'' = Some ativos \<and> \<not> has_column MATRICULA ativos)))"
  shows "\<exists>e. consolidation_execute state =
               state\<lparr>errors := Some ((case errors state of None \<Rightarrow> [] | Some es \<Rightarrow> es)
                                       @ [(''consolidation'', e)]),
                     success := False,
                     processing_stage := ''consolidation_failed''\<rparr>"
  using assms
  by (auto simp: consolidation_execute_def consolidation_try_def fail_stage_def
      split: option.splits)

theorem consolidation_fails_without_identifier_witness:
  "success (consolidation_execute no_roster_state) = False
   \<and> processing_stage (consolidation_execute no_roster_state) = ''consolidation_failed''
   \<and> consolidated_df (consolidation_execute no_roster_state) = None
   \<and> (\<exists>e. errors (consolidation_execute no_roster_state) = Some [(''consolidation'', e)])"
proof -
  have "\<exists>raw. raw_files no_roster_state = Some raw \<and> raw ''ativos'' = None"
    by (simp add: no_roster_state_def)
  then obtain e where "consolidation_execute no_roster_state =
               no_roster_state\<lparr>errors := Some ((case errors no_roster_state of None \<Rightarrow> [] | Some es \<Rightarrow> es)
                                       @ [(''consolidation'', e)]),
                     success := False,
                     processing_stage := ''consolidation_failed''\<rparr>"
    using consolidation_fails_without_identifier [of no_roster_state] by blast
  then show ?thesis by (simp add: no_roster_state_def)
qed

subsection \<open>Consolidation: daily rate and contractual workdays\<close>

lemma add_union_values_usable:
  assumes "raw ''base_sindicato'' = Some reference"
    and "\<not> empty reference" and "has_column SINDICATO reference"
    and "has_column VALOR_DIA reference" and "has_column Sindicato df"
  shows "add_union_values df raw =
           \<lparr>columns = (columns df)\<lparr>VALOR_DIA := NaN\<rparr>,
            rows = map (\<lambda>r. r\<lparr>VALOR_DIA := reference_value VALOR_DIA reference 35 (Sindicato r)\<rparr>)
                       (rows df)\<rparr>"
  using assms by (simp add: add_union_values_def Let_def map_fillna_reference_value)

lemma add_union_values_unusable:
  assumes "raw ''base_sindicato'' = None \<or> \<not> has_column Sindicato df
           \<or> (\<exists>reference. raw ''base_sindicato'' = Some reference
                  \<and> (empty reference \<or> \<not> has_column SINDICATO reference
                       \<or> \<not> has_column VALOR_DIA reference))"
  shows "add_union_values df raw = df"
  using assms by (auto simp: add_union_values_def Let_def split: option.splits)

lemma add_workdays_by_union_usable:
  assumes "raw ''base_dias_uteis'' = Some reference"
    and "\<not> empty reference" and "has_column SINDICATO reference"
    and "has_column DIAS_UTEIS reference" and "has_column Sindicato df"
  shows "add_workdays_by_union df raw =
           \<lparr>columns = (columns df)\<lparr>DIAS_UTEIS_SINDICATO := NaN\<rparr>,
            rows = map (\<lambda>r. r\<lparr>DIAS_UTEIS_SINDICATO :=
                                  reference_value DIAS_UTEIS reference 22 (Sindicato r)\<rparr>)
                       (rows df)\<rparr>"
  using assms by (simp add: add_workdays_by_union_def Let_def map_fillna_reference_value)

lemma add_workdays_by_union_unusable:
  assumes "raw ''base_dias_uteis'' = None \<or> \<not> has_column Sindicato df
           \<or> (\<exists>reference. raw ''base_dias_uteis'' = Some reference
                  \<and> (empty reference \<or> \<not> has_column SINDICATO reference
                       \<or> \<not> has_column DIAS_UTEIS reference))"
  shows "add_workdays_by_union df raw = df"
  using assms by (auto simp: add_workdays_by_union_def Let_def split: option.splits)

lemma map_eq_transfer:
  assumes "map q xs = map q ys" and "\<forall>y \<in> set ys. P (q y)"
  shows "\<forall>x \<in> set xs. P (q x)"
proof
  fix x assume "x \<in> set xs"
  then have "q x \<in> set (map q xs)" by simp
  then have "q x \<in> set (map q ys)" by (simp only: assms(1))
  then show "P (q x)" using assms(2) by auto
qed

lemma reference_value_populated:
  "\<exists>v. reference_value col reference fill sindicato = Val v"
  by (simp add: reference_value_def split: list.splits cell.splits)

lemma reference_value_unmapped:
  "sindicato \<notin> set (map SINDICATO (rows reference))
   \<Longrightarrow> reference_value col reference fill sindicato = Val fill"
proof -
  assume "sindicato \<notin> set (map SINDICATO (rows reference))"
  then have "filter (\<lambda>s. SINDICATO s = sindicato) (rows reference) = []"
    by (auto simp: filter_empty_conv)
  then show ?thesis by (simp add: reference_value_def)
qed

lemma reference_value_no_union:
  assumes "isna sindicato" and "\<forall>s \<in> set (rows reference). notna (SINDICATO s)"
  shows "reference_value col reference fill sindicato = Val fill"
proof (rule reference_value_unmapped)
  show "sindicato \<notin> set (map SINDICATO (rows reference))"
    using assms by (auto simp: notna_def)
qed

text \<open>
  C9, as the code has it.  After a successful consolidation: when the rate table is present
  with rows and has the columns SINDICATO and VALOR_DIA, and the roster has the column
  Sindicato, every record has a daily rate, namely the rate of the last row of the table
  whose SINDICATO equals the record's Sindicato (a missing name equals a missing name only),
  and 35 when there is no such row or its rate is missing; so 35 for a record whose union
  no row names, and 35 for a record without union when every row of the table names a
  union.  When the table is missing or empty or lacks one of the two columns, or the roster
  has no Sindicato column, consolidation adds no VALOR_DIA column: the records carry what
  the roster carried.  The same holds for DIAS_UTEIS_SINDICATO with the workdays table, its
  column DIAS_UTEIS and the default 22.
\<close>

theorem rate_and_workdays_resolution:
  assumes "raw_files state = Some raw"
    and "raw ''ativos'' = Some ativos"
    and "has_column MATRICULA ativos"
    and "success (consolidation_execute state)"
  shows "\<exists>out. consolidated_df (consolidation_execute state) = Some out
     \<and> (\<forall>reference.
           raw ''base_sindicato'' = Some reference \<and> \<not> empty reference
           \<and> has_column SINDICATO reference \<and> has_column VALOR_DIA reference
           \<and> has_column Sindicato ativos \<longrightarrow>
             has_column VALOR_DIA out
           \<and> (\<forall>w \<in> set (rows out).
                 VALOR_DIA w = reference_value VALOR_DIA reference 35 (Sindicato w)
               \<and> (\<exists>v. VALOR_DIA w = Val v)
               \<and> (Sindicato w \<notin> set (map SINDICATO (rows reference)) \<longrightarrow> VALOR_DIA w = Val 35)
               \<and> (isna (Sindicato w) \<and> (\<forall>s \<in> set (rows reference). notna (SINDICATO s))
                     \<longrightarrow> VALOR_DIA w = Val 35)))
     \<and> (raw ''base_sindicato'' = None \<or> \<not> has_column Sindicato ativos
          \<or> (\<exists>reference. raw ''base_sindicato'' = Some reference
                 \<and> (empty reference \<or> \<not> has_column SINDICATO reference
                      \<or> \<not> has_column VALOR_DIA reference)) \<longrightarrow>
             has_column VALOR_DIA out = has_column VALOR_DIA ativos
           \<and> map VALOR_DIA (rows out) = map VALOR_DIA (keep_first MATRICULA [] (rows ativos)))
     \<and> (\<forall>reference.
           raw ''base_dias_uteis'' = Some reference \<and> \<not> empty reference
           \<and> has_column SINDICATO reference \<and> has_column DIAS_UTEIS reference
           \<and> has_column Sindicato ativos \<longrightarrow>
             has_column DIAS_UTEIS_SINDICATO out
           \<and> (\<forall>w \<in> set (rows out).
                 DIAS_UTEIS_SINDICATO w = reference_value DIAS_UTEIS reference 22 (Sindicato w)
               \<and> (\<exists>v. DIAS_UTEIS_SINDICATO w = Val v)
               \<and> (Sindicato w \<notin> set (map SINDICATO (rows reference))
                     \<longrightarrow> DIAS_UTEIS_SINDICATO w = Val 22)
               \<and> (isna (Sindicato w) \<and> (\<forall>s \<in> set (rows reference). notna (SINDICATO s))
                     \<longrightarrow> DIAS_UTEIS_SINDICATO w = Val 22)))
     \<and> (raw ''base_dias_uteis'' = None \<or> \<not> has_column Sindicato ativos
          \<or> (\<exists>reference. raw ''base_dias_uteis'' = Some reference
                 \<and> (empty reference \<or> \<not> has_column SINDICATO reference
                      \<or> \<not> has_column DIAS_UTEIS reference)) \<longrightarrow>
             has_column DIAS_UTEIS_SINDICATO out = has_column DIAS_UTEIS_SINDICATO ativos
           \<and> map DIAS_UTEIS_SINDICATO (rows out)
               = map DIAS_UTEIS_SINDICATO (keep_first MATRICULA [] (rows ativos)))"
proof -
  obtain df where df: "consolidate_employee_data (drop_duplicates ativos) raw = Inr df"
    and ex: "consolidation_execute state =
               state\<lparr>consolidated_df := Some (add_workdays_by_union (add_union_values df raw) raw),
                     total_employees :=
                       length (rows (add_workdays_by_union (add_union_values df raw) raw)),
                     processing_stage := ''consolidation_complete'',
                     success := True\<rparr>"
    using consolidation_success [OF assms] by blast
  let ?mid = "add_union_values df raw"
  let ?out = "add_workdays_by_union ?mid raw"
  let ?kept = "keep_first MATRICULA [] (rows ativos)"
  have c: "consolidated_df (consolidation_execute state) = Some ?out"
    by (simp add: ex)
  have sdf: "has_column Sindicato df = has_column Sindicato ativos"
    using roster_fields_consolidated(1) [OF df] by (simp add: roster_fields_def has_column_def)
  have "roster_fields (columns ?mid) = roster_fields (columns df)"
    by (rule add_union_values_keeps(1)) (simp add: roster_fields_def)
  then have smid: "has_column Sindicato ?mid = has_column Sindicato ativos"
    using sdf by (simp add: roster_fields_def has_column_def)
  \<comment> \<open>the daily rate\<close>
  have A: "has_column VALOR_DIA ?out
           \<and> (\<forall>w \<in> set (rows ?out).
                 VALOR_DIA w = reference_value VALOR_DIA reference 35 (Sindicato w)
               \<and> (\<exists>v. VALOR_DIA w = Val v)
               \<and> (Sindicato w \<notin> set (map SINDICATO (rows reference)) \<longrightarrow> VALOR_DIA w = Val 35)
               \<and> (isna (Sindicato w) \<and> (\<forall>s \<in> set (rows reference). notna (SINDICATO s))
                     \<longrightarrow> VALOR_DIA w = Val 35))"
    if u: "raw ''base_sindicato'' = Some reference" "\<not> empty reference"
      "has_column SINDICATO reference" "has_column VALOR_DIA reference"
      "has_column Sindicato ativos"
    for reference
  proof -
    let ?q = "\<lambda>r. (VALOR_DIA r, Sindicato r)"
    let ?P = "\<lambda>p. fst p = reference_value VALOR_DIA reference 35 (snd p)"
    have mid: "?mid = \<lparr>columns = (columns df)\<lparr>VALOR_DIA := NaN\<rparr>,
            rows = map (\<lambda>r. r\<lparr>VALOR_DIA := reference_value VALOR_DIA reference 35 (Sindicato r)\<rparr>)
                       (rows df)\<rparr>"
      using u sdf by (simp add: add_union_values_usable)
    have pm: "\<forall>y \<in> set (rows ?mid). ?P (?q y)"
      unfolding mid by simp
    have qe: "map ?q (rows ?out) = map ?q (rows ?mid)"
      by (rule add_workdays_by_union_keeps(2)) simp
    have po: "\<forall>x \<in> set (rows ?out). ?P (?q x)"
      using qe pm by (rule map_eq_transfer)
    have "VALOR_DIA (columns ?out) = VALOR_DIA (columns ?mid)"
      by (rule add_workdays_by_union_keeps(1)) simp
    then have h: "has_column VALOR_DIA ?out"
      unfolding mid by (simp add: has_column_def)
    show ?thesis
      using h po reference_value_populated [of VALOR_DIA reference 35]
        reference_value_unmapped [of _ reference VALOR_DIA 35]
        reference_value_no_union [of _ reference VALOR_DIA 35]
      by simp
  qed
  have B: "has_column VALOR_DIA ?out = has_column VALOR_DIA ativos
           \<and> map VALOR_DIA (rows ?out) = map VALOR_DIA ?kept"
    if n: "raw ''base_sindicato'' = None \<or> \<not> has_column Sindicato ativos
          \<or> (\<exists>reference. raw ''base_sindicato'' = Some reference
                 \<and> (empty reference \<or> \<not> has_column SINDICATO reference
                      \<or> \<not> has_column VALOR_DIA reference))"
  proof -
    have mid: "?mid = df"
      using n sdf by (simp add: add_union_values_unusable)
    have 1: "VALOR_DIA (columns ?out) = VALOR_DIA (columns ?mid)"
      by (rule add_workdays_by_union_keeps(1)) simp
    have 2: "map VALOR_DIA (rows ?out) = map VALOR_DIA (rows ?mid)"
      by (rule add_workdays_by_union_keeps(2)) simp
    have 3: "VALOR_DIA (columns df) = VALOR_DIA (columns ativos)"
      by (rule consolidated_keeps(1) [where q = VALOR_DIA, OF _ _ _ _ _ _ _ _ df]) simp_all
    have 4: "map VALOR_DIA (rows df) = map VALOR_DIA ?kept"
      by (rule consolidated_keeps(2) [where q = VALOR_DIA, OF _ _ _ _ _ _ _ _ df]) simp_all
    show ?thesis
      using 1 2 3 4 by (simp add: mid has_column_def)
  qed
  \<comment> \<open>the contractual workdays\<close>
  have C: "has_column DIAS_UTEIS_SINDICATO ?out
           \<and> (\<forall>w \<in> set (rows ?out).
                 DIAS_UTEIS_SINDICATO w = reference_value DIAS_UTEIS reference 22 (Sindicato w)
               \<and> (\<exists>v. DIAS_UTEIS_SINDICATO w = Val v)
               \<and> (Sindicato w \<notin> set (map SINDICATO (rows reference))
                     \<longrightarrow> DIAS_UTEIS_SINDICATO w = Val 22)
               \<and> (isna (Sindicato w) \<and> (\<forall>s \<in> set (rows reference). notna (SINDICATO s))
                     \<longrightarrow> DIAS_UTEIS_SINDICATO w = Val 22))"
    if u: "raw ''base_dias_uteis'' = Some reference" "\<not> empty reference"
      "has_column SINDICATO reference" "has_column DIAS_UTEIS reference"
      "has_column Sindicato ativos"
    for reference
  proof -
    have out: "?out = \<lparr>columns = (columns ?mid)\<lparr>DIAS_UTEIS_SINDICATO := NaN\<rparr>,
            rows = map (\<lambda>r. r\<lparr>DIAS_UTEIS_SINDICATO :=
                                  reference_value DIAS_UTEIS reference 22 (Sindicato r)\<rparr>)
                       (rows ?mid)\<rparr>"
      using u smid by (simp add: add_workdays_by_union_usable)
    have h: "has_column DIAS_UTEIS_SINDICATO ?out"
      unfolding out by (simp add: has_column_def)
    have p: "\<forall>w \<in> set (rows ?out).
               DIAS_UTEIS_SINDICATO w = reference_value DIAS_UTEIS reference 22 (Sindicato w)"
      unfolding out by simp
    show ?thesis
      using h p reference_value_populated [of DIAS_UTEIS reference 22]
        reference_value_unmapped [of _ reference DIAS_UTEIS 22]
        reference_value_no_union [of _ reference DIAS_UTEIS 22]
      by simp
  qed
  have D: "has_column DIAS_UTEIS_SINDICATO ?out = has_column DIAS_UTEIS_SINDICATO ativos
           \<and> map DIAS_UTEIS_SINDICATO (rows ?out) = map DIAS_UTEIS_SINDICATO ?kept"
    if n: "raw ''base_dias_uteis'' = None \<or> \<not> has_column Sindicato ativos
          \<or> (\<exists>reference. raw ''base_dias_uteis'' = Some reference
                 \<and> (empty reference \<or> \<not> has_column SINDICATO reference
                      \<or> \<not> has_column DIAS_UTEIS reference))"
  proof -
    have out: "?out = ?mid"
      using n smid by (simp add: add_workdays_by_union_unusable)
    have 1: "DIAS_UTEIS_SINDICATO (columns ?mid) = DIAS_UTEIS_SINDICATO (columns df)"
      by (rule add_union_values_keeps(1)) simp
    have 2: "map DIAS_UTEIS_SINDICATO (rows ?mid) = map DIAS_UTEIS_SINDICATO (rows df)"
      by (rule add_union_values_keeps(2)) simp
    have 3: "DIAS_UTEIS_SINDICATO (columns df) = DIAS_UTEIS_SINDICATO (columns ativos)"
      by (rule consolidated_keeps(1) [where q = DIAS_UTEIS_SINDICATO, OF _ _ _ _ _ _ _ _ df])
         simp_all
    have 4: "map DIAS_UTEIS_SINDICATO (rows df) = map DIAS_UTEIS_SINDICATO ?kept"
      by (rule consolidated_keeps(2) [where q = DIAS_UTEIS_SINDICATO, OF _ _ _ _ _ _ _ _ df])
         simp_all
    show ?thesis
      using 1 2 3 4 by (simp add: out has_column_def)
  qed
  show ?thesis
    apply (rule exI [of _ ?out])
    apply (intro conjI)
        apply (rule c)
       apply (intro allI impI, rule A; simp)
      apply (intro impI, rule B, assumption)
     apply (intro allI impI, rule C; simp)
    apply (intro impI, rule D, assumption)
    done
qed

text \<open>
  C9 as the specification words it promises the defaults 35 and 22 also when the reference
  tables are missing.  Consolidating a roster alone leaves both columns out.
\<close>

theorem missing_reference_counterexample:
  "consolidated_df (consolidation_execute roster_only_state)
     = Some \<lparr>columns = columns roster_example, rows = [analyst_100, technician_200]\<rparr>
   \<and> VALOR_DIA analyst_100 \<noteq> Val 35 \<and> DIAS_UTEIS_SINDICATO analyst_100 \<noteq> Val 22
   \<and> VALOR_DIA technician_200 \<noteq> Val 35 \<and> DIAS_UTEIS_SINDICATO technician_200 \<noteq> Val 22"
  by (simp add: roster_only_consolidated analyst_100_def technician_200_def no_columns_def)

lemma complete_files_lookup:
  "complete_files ''ativos'' = Some roster_example"
  "complete_files ''base_sindicato'' = Some rates_example"
  "complete_files ''base_dias_uteis'' = Some workdays_example"
  "complete_files ''ferias'' = None"
  "complete_files ''estagio'' = None"
  "complete_files ''aprendiz'' = None"
  "complete_files ''afastamentos'' = None"
  "complete_files ''exterior'' = None"
  "complete_files ''desligados'' = None"
  "complete_files ''admissao'' = None"
  "complete_files \<noteq> Map.empty"
  by (simp_all add: complete_files_def)

lemma complete_state_success:
  "raw_files complete_state = Some complete_files"
  "has_column MATRICULA roster_example"
  "success (consolidation_execute complete_state)"
proof -
  show r: "raw_files complete_state = Some complete_files"
    by (simp add: complete_state_def complete_files_def)
  show h: "has_column MATRICULA roster_example"
    by (simp add: has_column_def roster_example_def no_columns_def)
  have c: "consolidate_employee_data (drop_duplicates roster_example) complete_files
             = Inr (drop_duplicates roster_example)"
    by (simp add: consolidate_employee_data_def add_ferias_def add_exclusions_def
        mark_exclusion_def add_desligados_def add_admissao_def complete_files_lookup)
  show "success (consolidation_execute complete_state)"
    using r h c
    by (simp add: consolidation_execute_def consolidation_try_def complete_files_lookup Let_def)
qed

lemma reference_examples:
  "\<not> empty rates_example" "has_column SINDICATO rates_example"
  "has_column VALOR_DIA rates_example"
  "\<forall>s \<in> set (rows rates_example). notna (SINDICATO s)"
  "\<not> empty workdays_example" "has_column SINDICATO workdays_example"
  "has_column DIAS_UTEIS workdays_example"
  "\<forall>s \<in> set (rows workdays_example). notna (SINDICATO s)"
  "has_column Sindicato roster_example"
  by (simp_all add: empty_def has_column_def rates_example_def workdays_example_def
      roster_example_def no_columns_def notna_def isna_def)

theorem rate_and_workdays_resolution_witness:
  "\<exists>out. consolidated_df (consolidation_execute complete_state) = Some out
     \<and> has_column VALOR_DIA out \<and> has_column DIAS_UTEIS_SINDICATO out
     \<and> (\<forall>w \<in> set (rows out).
           (\<exists>v. VALOR_DIA w = Val v) \<and> (\<exists>d. DIAS_UTEIS_SINDICATO w = Val d)
         \<and> (Sindicato w = Val ''SINDPD RJ''
              \<longrightarrow> VALOR_DIA w = Val 35 \<and> DIAS_UTEIS_SINDICATO w = Val 22)
         \<and> (isna (Sindicato w)
              \<longrightarrow> VALOR_DIA w = Val 35 \<and> DIAS_UTEIS_SINDICATO w = Val 22))"
proof -
  note t = rate_and_workdays_resolution
    [OF complete_state_success(1) complete_files_lookup(1) complete_state_success(2,3)]
  obtain out where o: "consolidated_df (consolidation_execute complete_state) = Some out"
    and a: "\<forall>reference.
           complete_files ''base_sindicato'' = Some reference \<and> \<not> empty reference
           \<and> has_column SINDICATO reference \<and> has_column VALOR_DIA reference
           \<and> has_column Sindicato roster_example \<longrightarrow>
             has_column VALOR_DIA out
           \<and> (\<forall>w \<in> set (rows out).
                 VALOR_DIA w = reference_value VALOR_DIA reference 35 (Sindicato w)
               \<and> (\<exists>v. VALOR_DIA w = Val v)
               \<and> (Sindicato w \<notin> set (map SINDICATO (rows reference)) \<longrightarrow> VALOR_DIA w = Val 35)
               \<and> (isna (Sindicato w) \<and> (\<forall>s \<in> set (rows reference). notna (SINDICATO s))
                     \<longrightarrow> VALOR_DIA w = Val 35))"
    and b: "\<forall>reference.
           complete_files ''base_dias_uteis'' = Some reference \<and> \<not> empty reference
           \<and> has_column SINDICATO reference \<and> has_column DIAS_UTEIS reference
           \<and> has_column Sindicato roster_example \<longrightarrow>
             has_column DIAS_UTEIS_SINDICATO out
           \<and> (\<forall>w \<in> set (rows out).
                 DIAS_UTEIS_SINDICATO w = reference_value DIAS_UTEIS reference 22 (Sindicato w)
               \<and> (\<exists>v. DIAS_UTEIS_SINDICATO w = Val v)
               \<and> (Sindicato w \<notin> set (map SINDICATO (rows reference))
                     \<longrightarrow> DIAS_UTEIS_SINDICATO w = Val 22)
               \<and> (isna (Sindicato w) \<and> (\<forall>s \<in> set (rows reference). notna (SINDICATO s))
                     \<longrightarrow> DIAS_UTEIS_SINDICATO w = Val 22))"
    using t by blast
  have a': "has_column VALOR_DIA out
           \<and> (\<forall>w \<in> set (rows out).
                 VALOR_DIA w = reference_value VALOR_DIA rates_example 35 (Sindicato w)
               \<and> (\<exists>v. VALOR_DIA w = Val v)
               \<and> (Sindicato w \<notin> set (map SINDICATO (rows rates_example)) \<longrightarrow> VALOR_DIA w = Val 35)
               \<and> (isna (Sindicato w) \<and> (\<forall>s \<in> set (rows rates_example). notna (SINDICATO s))
                     \<longrightarrow> VALOR_DIA w = Val 35))"
    by (rule a [rule_format, of rates_example])
       (simp add: reference_examples complete_files_lookup(2))
  have b': "has_column DIAS_UTEIS_SINDICATO out
           \<and> (\<forall>w \<in> set (rows out).
                 DIAS_UTEIS_SINDICATO w = reference_value DIAS_UTEIS workdays_example 22 (Sindicato w)
               \<and> (\<exists>v. DIAS_UTEIS_SINDICATO w = Val v)
               \<and> (Sindicato w \<notin> set (map SINDICATO (rows workdays_example))
                     \<longrightarrow> DIAS_UTEIS_SINDICATO w = Val 22)
               \<and> (isna (Sindicato w) \<and> (\<forall>s \<in> set (rows workdays_example). notna (SINDICATO s))
                     \<longrightarrow> DIAS_UTEIS_SINDICATO w = Val 22))"
    by (rule b [rule_format, of workdays_example])
       (simp add: reference_examples complete_files_lookup(3))
  have k: "Val ''SINDPD RJ'' \<notin> set (map SINDICATO (rows rates_example))"
    "Val ''SINDPD RJ'' \<notin> set (map SINDICATO (rows workdays_example))"
    by (simp_all add: rates_example_def workdays_example_def no_columns_def)
  show ?thesis
  proof (intro exI [of _ out] conjI ballI impI)
    show "consolidated_df (consolidation_execute complete_state) = Some out" by (rule o)
    show "has_column VALOR_DIA out" using a' by blast
    show "has_column DIAS_UTEIS_SINDICATO out" using b' by blast
    fix w assume w: "w \<in> set (rows out)"
    show "\<exists>v. VALOR_DIA w = Val v" using a' w by blast
    show "\<exists>d. DIAS_UTEIS_SINDICATO w = Val d" using b' w by blast
    assume "Sindicato w = Val ''SINDPD RJ''"
    then have n: "Sindicato w \<notin> set (map SINDICATO (rows rates_example))"
      "Sindicato w \<notin> set (map SINDICATO (rows workdays_example))"
      using k by simp_all
    show "VALOR_DIA w = Val 35" using a' w n(1) by blast
    show "DIAS_UTEIS_SINDICATO w = Val 22" using b' w n(2) by blast
  next
    fix w assume w: "w \<in> set (rows out)" and i: "isna (Sindicato w)"
    show "VALOR_DIA w = Val 35" using a' w i reference_examples(4) by blast
    show "DIAS_UTEIS_SINDICATO w = Val 22" using b' w i reference_examples(8) by blast
  qed
qed

subsection \<open>Consolidation depends on the raw files alone\<close>



subsection \<open>The three monetary fields\<close>

lemma literals_are_nearest_doubles:
  "round_binary64 (4 / 5) = double_0_8" "round_binary64 (1 / 5) = double_0_2"
  by code_simp+

lemma round_half_even_close: "\<bar>of_int (round_half_even x) - x\<bar> \<le> 1 / 2"
proof -
  have "of_int \<lfloor>x\<rfloor> \<le> x" "x < of_int \<lfloor>x\<rfloor> + 1" by linarith+
  then show ?thesis
    by (auto simp: round_half_even_def Let_def)
qed

lemma round_half_even_nonneg: "0 \<le> x \<Longrightarrow> 0 \<le> round_half_even x"
proof -
  assume "0 \<le> x"
  then have "0 \<le> \<lfloor>x\<rfloor>" by simp
  then show ?thesis by (auto simp: round_half_even_def Let_def)
qed

lemma exponent_le:
  assumes "0 < x"
  shows "2 powi exponent x \<le> x"
proof (cases "1 \<le> x")
  case True
  let ?m = "\<lfloor>x\<rfloor>"
  have m: "0 < ?m" using True by simp
  have b: "1 \<le> bitlen ?m" using m bitlen_eq_zero_iff [of ?m] bitlen_nonneg [of ?m] by linarith
  have "(2::int) ^ nat (bitlen ?m - 1) \<le> ?m" using bitlen_bounds [OF m] by simp
  then have "(of_int ((2::int) ^ nat (bitlen ?m - 1)) :: rat) \<le> of_int ?m"
    by (simp only: of_int_le_iff)
  then have "(2::rat) ^ nat (bitlen ?m - 1) \<le> of_int ?m" by simp
  also have "\<dots> \<le> x" by simp
  finally have "(2::rat) ^ nat (bitlen ?m - 1) \<le> x" .
  moreover have "exponent x = bitlen ?m - 1" using True by (simp add: exponent_def)
  moreover have "(2::rat) powi (bitlen ?m - 1) = 2 ^ nat (bitlen ?m - 1)"
    using b by (simp add: power_int_nonneg_exp)
  ultimately show ?thesis by simp
next
  case False
  let ?m = "\<lceil>1 / x\<rceil> - 1"
  have "1 < 1 / x" using False assms by simp
  then have "1 < \<lceil>1 / x\<rceil>" by (simp add: less_ceiling_iff)
  then have m: "0 < ?m" by simp
  have "?m < 2 ^ nat (bitlen ?m)" using bitlen_bounds [OF m] by simp
  then have "\<lceil>1 / x\<rceil> \<le> 2 ^ nat (bitlen ?m)" by simp
  then have "(of_int \<lceil>1 / x\<rceil> :: rat) \<le> of_int (2 ^ nat (bitlen ?m))"
    by (simp only: of_int_le_iff)
  then have "(of_int \<lceil>1 / x\<rceil> :: rat) \<le> 2 ^ nat (bitlen ?m)" by simp
  moreover have "1 / x \<le> of_int \<lceil>1 / x\<rceil>" by simp
  ultimately have "1 / x \<le> 2 ^ nat (bitlen ?m)" by linarith
  then have "1 \<le> 2 ^ nat (bitlen ?m) * x" using assms by (simp add: field_simps)
  then have "1 / 2 ^ nat (bitlen ?m) \<le> x" by (simp add: field_simps)
  moreover have "exponent x = - bitlen ?m" using False by (simp add: exponent_def)
  moreover have "(2::rat) powi (- bitlen ?m) = 1 / 2 ^ nat (bitlen ?m)"
    using bitlen_nonneg [of ?m] by (simp add: power_int_minus_divide power_int_nonneg_exp)
  ultimately show ?thesis by simp
qed

lemma round_binary64_error:
  assumes "0 \<le> x"
  shows "\<bar>round_binary64 x - x\<bar> \<le> x / 2 ^ 53 + 1 / 2 ^ 1075"
proof (cases "x = 0")
  case True
  then show ?thesis by (simp add: round_binary64_def)
next
  case False
  then have pos: "0 < x" using assms by simp
  define q where "q = max (exponent x - 52) (- 1074)"
  define s :: rat where "s = 2 powi q"
  have s0: "0 < s" by (simp add: s_def)
  have r: "round_binary64 x = of_int (round_half_even (x / s)) * s"
    using False pos by (simp add: round_binary64_def q_def s_def Let_def)
  have "\<bar>of_int (round_half_even (x / s)) - x / s\<bar> \<le> 1 / 2"
    by (rule round_half_even_close)
  then have "\<bar>of_int (round_half_even (x / s)) - x / s\<bar> * s \<le> 1 / 2 * s"
    using s0 by (simp only: mult_le_cancel_right) simp
  moreover have "\<bar>of_int (round_half_even (x / s)) - x / s\<bar> * s
                 = \<bar>of_int (round_half_even (x / s)) * s - x\<bar>"
  proof -
    have "\<bar>of_int (round_half_even (x / s)) - x / s\<bar> * s
          = \<bar>(of_int (round_half_even (x / s)) - x / s) * s\<bar>"
      using s0 by (simp add: abs_mult)
    also have "(of_int (round_half_even (x / s)) - x / s) * s
               = of_int (round_half_even (x / s)) * s - x"
      using s0 by (simp add: field_simps)
    finally show ?thesis .
  qed
  ultimately have e: "\<bar>round_binary64 x - x\<bar> \<le> s / 2" by (simp add: r)
  have "s \<le> x / 2 ^ 52 + 1 / 2 ^ 1074"
  proof (cases "exponent x - 52 \<le> - 1074")
    case True
    then have "q = - 1074" by (simp add: q_def)
    then have "s = 1 / 2 ^ 1074" by (simp add: s_def power_int_minus_divide)
    then show ?thesis using pos by simp
  next
    case False
    then have "q = exponent x - 52" by (simp add: q_def)
    then have "s = 2 powi exponent x / 2 ^ 52" by (simp add: s_def power_int_diff)
    also have "\<dots> \<le> x / 2 ^ 52" using exponent_le [OF pos] by (simp add: divide_right_mono)
    finally show ?thesis by simp
  qed
  then have "s / 2 \<le> x / 2 ^ 53 + 1 / 2 ^ 1075" by simp
  then show ?thesis using e by linarith
qed

lemma round_binary64_nonneg: "0 \<le> x \<Longrightarrow> 0 \<le> round_binary64 x"
  by (simp add: round_binary64_def Let_def round_half_even_nonneg)

lemma round_binary64_close:
  assumes "0 \<le> x" and "x \<le> 1000000002"
  shows "\<bar>round_binary64 x - x\<bar> \<le> 1 / 8000000"
proof -
  have "x / 2 ^ 53 \<le> 1000000002 / 2 ^ 53" using assms(2) by (simp add: divide_right_mono)
  moreover have "(1000000002::rat) / 2 ^ 53 + 1 / 2 ^ 1075 \<le> 1 / 8000000" by simp
  ultimately show ?thesis using round_binary64_error [OF assms(1)] by linarith
qed


lemma double_shares:
  "double_0_8 + double_0_2 = 1 + 1 / 2 ^ 54" "0 \<le> double_0_8" "double_0_8 \<le> 1"
  "0 \<le> double_0_2" "double_0_2 \<le> 1"
  by (simp_all add: double_0_8_def double_0_2_def)

lemma round2_binary64_close:
  assumes "0 \<le> y" and "y \<le> 1000000001"
  shows "\<bar>round2 binary64_ops y - of_int (round_half_even (y * 100)) / 100\<bar> \<le> 1 / 8000000"
proof -
  let ?t = "round_half_even (y * 100)"
  have c: "\<bar>of_int ?t - y * 100\<bar> \<le> 1 / 2" by (rule round_half_even_close)
  have "0 \<le> ?t" using assms(1) by (simp add: round_half_even_nonneg)
  then have 0: "(0::rat) \<le> of_int ?t / 100" by simp
  have "(of_int ?t :: rat) \<le> y * 100 + 1 / 2" using c by linarith
  then have 1: "(of_int ?t :: rat) / 100 \<le> 1000000002" using assms(2) by linarith
  show ?thesis
    using round_binary64_close [OF 0 1] by (simp add: binary64_ops_def)
qed

lemma share_fields_bound:
  assumes "0 \<le> a * b" and "a * b \<le> 1000000000"
  defines "p \<equiv> fmul binary64_ops a b"
  shows "\<bar>round2 binary64_ops p
          - (round2 binary64_ops (fmul binary64_ops p double_0_8)
             + round2 binary64_ops (fmul binary64_ops p double_0_2))\<bar>
         \<le> 1 / 100 + 1 / 1000000"
proof -
  define e where "e = fmul binary64_ops p double_0_8"
  define c where "c = fmul binary64_ops p double_0_2"
  define tp where "tp = round_half_even (p * 100)"
  define te where "te = round_half_even (e * 100)"
  define tc where "tc = round_half_even (c * 100)"
  define x where "x = a * b"
  have x: "0 \<le> x" "x \<le> 1000000000" using assms(1,2) by (simp_all add: x_def)
  have p: "p = round_binary64 x" by (simp add: p_def binary64_ops_def x_def)
  have e: "e = round_binary64 (p * double_0_8)" by (simp add: e_def binary64_ops_def)
  have c: "c = round_binary64 (p * double_0_2)" by (simp add: c_def binary64_ops_def)
  have p0: "0 \<le> p" using x(1) by (simp add: p round_binary64_nonneg)
  have "\<bar>p - x\<bar> \<le> 1 / 8000000"
    unfolding p by (rule round_binary64_close) (use x in simp_all)
  then have p2: "p \<le> 1000000000 + 1 / 8000000" using x(2) by linarith
  then have p1: "p \<le> 1000000001" by linarith
  have pe0: "0 \<le> p * double_0_8" using p0 double_shares(2) by simp
  have "p * double_0_8 \<le> p * 1" using p0 double_shares(3) by (rule mult_left_mono [rotated])
  then have pe2: "p * double_0_8 \<le> 1000000000 + 1 / 8000000" using p2 by simp
  then have pe1: "p * double_0_8 \<le> 1000000001" by linarith
  have pc0: "0 \<le> p * double_0_2" using p0 double_shares(4) by simp
  have "p * double_0_2 \<le> p * 1" using p0 double_shares(5) by (rule mult_left_mono [rotated])
  then have pc2: "p * double_0_2 \<le> 1000000000 + 1 / 8000000" using p2 by simp
  then have pc1: "p * double_0_2 \<le> 1000000001" by linarith
  have e0: "0 \<le> e" using pe0 by (simp add: e round_binary64_nonneg)
  have c0: "0 \<le> c" using pc0 by (simp add: c round_binary64_nonneg)
  have ee: "\<bar>e - p * double_0_8\<bar> \<le> 1 / 8000000"
    unfolding e by (rule round_binary64_close) (use pe0 pe1 in simp_all)
  have ce: "\<bar>c - p * double_0_2\<bar> \<le> 1 / 8000000"
    unfolding c by (rule round_binary64_close) (use pc0 pc1 in simp_all)
  have e1: "e \<le> 1000000001" using ee pe2 by linarith
  have c1: "c \<le> 1000000001" using ce pc2 by linarith
  have "p * double_0_8 + p * double_0_2 = p * (1 + 1 / 2 ^ 54)"
    by (simp only: distrib_left [symmetric] double_shares(1))
  then have s: "p * double_0_8 + p * double_0_2 = p + p / 2 ^ 54"
    by (simp add: distrib_left)
  have "p / 2 ^ 54 \<le> 1000000001 / 2 ^ 54" using p1 by (simp add: divide_right_mono)
  then have s1: "p / 2 ^ 54 \<le> 1 / 10000000" by simp
  have s0: "0 \<le> p / 2 ^ 54" using p0 by simp
  have d: "\<bar>p - (e + c)\<bar> \<le> 7 / 20000000"
    using ee ce s s0 s1 by linarith
  have tpc: "\<bar>of_int tp - p * 100\<bar> \<le> 1 / 2" unfolding tp_def by (rule round_half_even_close)
  have tec: "\<bar>of_int te - e * 100\<bar> \<le> 1 / 2" unfolding te_def by (rule round_half_even_close)
  have tcc: "\<bar>of_int tc - c * 100\<bar> \<le> 1 / 2" unfolding tc_def by (rule round_half_even_close)
  have "\<bar>(of_int tp :: rat) - (of_int te + of_int tc)\<bar> < 2"
    using tpc tec tcc d by linarith
  then have "\<bar>(of_int (tp - (te + tc)) :: rat)\<bar> < of_int 2" by simp
  then have "\<bar>tp - (te + tc)\<bar> < 2"
    by (simp only: of_int_abs [symmetric] of_int_less_iff)
  then have "\<bar>tp - (te + tc)\<bar> \<le> 1" by simp
  then have "(of_int \<bar>tp - (te + tc)\<bar> :: rat) \<le> of_int 1" by (simp only: of_int_le_iff)
  then have i: "\<bar>(of_int tp :: rat) - (of_int te + of_int tc)\<bar> \<le> 1" by simp
  have rp: "\<bar>round2 binary64_ops p - of_int tp / 100\<bar> \<le> 1 / 8000000"
    unfolding tp_def by (rule round2_binary64_close) (use p0 p1 in simp_all)
  have re: "\<bar>round2 binary64_ops e - of_int te / 100\<bar> \<le> 1 / 8000000"
    unfolding te_def by (rule round2_binary64_close) (use e0 e1 in simp_all)
  have rc: "\<bar>round2 binary64_ops c - of_int tc / 100\<bar> \<le> 1 / 8000000"
    unfolding tc_def by (rule round2_binary64_close) (use c0 c1 in simp_all)
  have "\<bar>round2 binary64_ops p - (round2 binary64_ops e + round2 binary64_ops c)\<bar>
        \<le> 1 / 100 + 1 / 1000000"
    using rp re rc i by linarith
  then show ?thesis by (simp add: e_def c_def)
qed



lemma calculate_employee_shares:
  assumes "VALOR_TOTAL_VR r = Val 0" and "CUSTO_EMPRESA r = Val 0"
    and "DESCONTO_PROFISSIONAL r = Val 0"
    and "0 \<le> calculate_individual_workdays r"
    and "of_int (calculate_individual_workdays r) * get_daily_value_for_employee r \<le> 1000000000"
  shows "\<exists>total empresa colaborador.
           VALOR_TOTAL_VR (calculate_employee binary64_ops r) = Val total
         \<and> CUSTO_EMPRESA (calculate_employee binary64_ops r) = Val empresa
         \<and> DESCONTO_PROFISSIONAL (calculate_employee binary64_ops r) = Val colaborador
         \<and> \<bar>total - (empresa + colaborador)\<bar> \<le> 1 / 100 + 1 / 1000000"
proof -
  let ?d = "calculate_individual_workdays r"
  let ?v = "get_daily_value_for_employee r"
  have v: "0 < ?v"
    by (simp add: get_daily_value_for_employee_def Let_def split: cell.splits)
  have 0: "0 \<le> of_int ?d * ?v" using assms(4) v by simp
  note b = share_fields_bound [OF 0 assms(5)]
  show ?thesis
  proof (cases "generate_employee_observations binary64_ops r ?d ?v")
    case (Inl e)
    then show ?thesis using assms(1-3) by (simp add: calculate_employee_def Let_def)
  next
    case (Inr obs)
    then show ?thesis using b by (simp add: calculate_employee_def Let_def)
  qed
qed

lemma initial_columns_rows:
  "rows (assign OBSERVACOES_update []
          (assign DESCONTO_PROFISSIONAL_update 0
            (assign CUSTO_EMPRESA_update 0
              (assign VALOR_TOTAL_VR_update 0
                (assign DIAS_CALCULO_update 0 df)))))
   = map (\<lambda>r. r\<lparr>DIAS_CALCULO := Val 0, VALOR_TOTAL_VR := Val 0, CUSTO_EMPRESA := Val 0,
                    DESCONTO_PROFISSIONAL := Val 0, OBSERVACOES := Val []\<rparr>) (rows df)"
  by (simp add: assign_def)

lemma initial_columns_MATRICULA:
  "has_column MATRICULA (assign OBSERVACOES_update []
          (assign DESCONTO_PROFISSIONAL_update 0
            (assign CUSTO_EMPRESA_update 0
              (assign VALOR_TOTAL_VR_update 0
                (assign DIAS_CALCULO_update 0 df)))))
   = has_column MATRICULA df"
  by (simp add: assign_def has_column_def)

lemma initial_columns_inputs:
  "calculate_individual_workdays
     (r\<lparr>DIAS_CALCULO := Val 0, VALOR_TOTAL_VR := Val 0, CUSTO_EMPRESA := Val 0,
        DESCONTO_PROFISSIONAL := Val 0, OBSERVACOES := Val []\<rparr>)
   = calculate_individual_workdays r"
  "get_daily_value_for_employee
     (r\<lparr>DIAS_CALCULO := Val 0, VALOR_TOTAL_VR := Val 0, CUSTO_EMPRESA := Val 0,
        DESCONTO_PROFISSIONAL := Val 0, OBSERVACOES := Val []\<rparr>)
   = get_daily_value_for_employee r"
  by (simp_all add: calculate_individual_workdays_def get_daily_value_for_employee_def Let_def)

text \<open>
  C1, as the code has it.  For a validated table with the identifier column in which every
  record has a non-negative number of paid days and a product of paid days and daily rate
  of at most \<open>10^9\<close>, the calculation in double precision returns a table with one
  record for each, and in every record the total differs from the sum of the two shares by
  at most \<open>0.01 + 0.000001\<close>: one cent, and the representation error of the three
  doubles.
\<close>

theorem shares_within_a_cent_of_total:
  assumes "has_column MATRICULA df"
    and "\<forall>r \<in> set (rows df).
           0 \<le> calculate_individual_workdays r
         \<and> of_int (calculate_individual_workdays r) * get_daily_value_for_employee r
             \<le> 1000000000"
  shows "\<exists>out. calculate_individual_benefits binary64_ops df = Inr out
         \<and> length (rows out) = length (rows df)
         \<and> (\<forall>w \<in> set (rows out). \<exists>total empresa colaborador.
               VALOR_TOTAL_VR w = Val total \<and> CUSTO_EMPRESA w = Val empresa
             \<and> DESCONTO_PROFISSIONAL w = Val colaborador
             \<and> \<bar>total - (empresa + colaborador)\<bar> \<le> 1 / 100 + 1 / 1000000)"
proof -
  let ?init = "\<lambda>r. r\<lparr>DIAS_CALCULO := Val 0, VALOR_TOTAL_VR := Val 0, CUSTO_EMPRESA := Val 0,
                        DESCONTO_PROFISSIONAL := Val 0, OBSERVACOES := Val []\<rparr>"
  let ?df0 = "assign OBSERVACOES_update []
               (assign DESCONTO_PROFISSIONAL_update 0
                 (assign CUSTO_EMPRESA_update 0
                   (assign VALOR_TOTAL_VR_update 0
                     (assign DIAS_CALCULO_update 0 df))))"
  let ?out = "?df0\<lparr>rows := map (calculate_employee binary64_ops) (rows ?df0)\<rparr>"
  have m: "has_column MATRICULA ?df0"
    using assms(1) by (simp only: initial_columns_MATRICULA)
  have o: "calculate_individual_benefits binary64_ops df = Inr ?out"
    using m by (simp add: calculate_individual_benefits_def Let_def)
  have r: "rows ?out = map (\<lambda>r. calculate_employee binary64_ops (?init r)) (rows df)"
    by (simp add: initial_columns_rows comp_def)
  have w: "\<exists>total empresa colaborador.
               VALOR_TOTAL_VR w = Val total \<and> CUSTO_EMPRESA w = Val empresa
             \<and> DESCONTO_PROFISSIONAL w = Val colaborador
             \<and> \<bar>total - (empresa + colaborador)\<bar> \<le> 1 / 100 + 1 / 1000000"
    if ww: "w \<in> set (rows ?out)" for w
  proof -
    have "w \<in> (\<lambda>r. calculate_employee binary64_ops (?init r)) ` set (rows df)"
      using ww unfolding r by simp
    then obtain r where r1: "r \<in> set (rows df)"
      and r2: "w = calculate_employee binary64_ops (?init r)"
      by blast
    have b: "0 \<le> calculate_individual_workdays r"
      "of_int (calculate_individual_workdays r) * get_daily_value_for_employee r \<le> 1000000000"
      using assms(2) r1 by auto
    show ?thesis
      unfolding r2
      by (rule calculate_employee_shares) (simp_all add: initial_columns_inputs b)
  qed
  have l: "length (rows ?out) = length (rows df)"
    unfolding r by simp
  show ?thesis
    using o l w by blast
qed

theorem shares_within_a_cent_of_total_witness:
  "\<exists>out. calculate_individual_benefits binary64_ops drift_table = Inr out
     \<and> length (rows out) = 1
     \<and> (\<forall>w \<in> set (rows out). \<exists>total empresa colaborador.
               VALOR_TOTAL_VR w = Val total \<and> CUSTO_EMPRESA w = Val empresa
             \<and> DESCONTO_PROFISSIONAL w = Val colaborador
             \<and> \<bar>total - (empresa + colaborador)\<bar> \<le> 1 / 100 + 1 / 1000000)"
proof -
  have m: "has_column MATRICULA drift_table"
    by (simp add: has_column_def drift_table_def no_columns_def)
  have d: "calculate_individual_workdays drift_example = 1"
    by (simp add: calculate_individual_workdays_def drift_example_def no_columns_def
        get_default_def)
  have v: "get_daily_value_for_employee drift_example = 5887330612880081 / 281474976710656"
    by (simp add: get_daily_value_for_employee_def drift_example_def no_columns_def)
  have b: "\<forall>r \<in> set (rows drift_table).
           0 \<le> calculate_individual_workdays r
         \<and> of_int (calculate_individual_workdays r) * get_daily_value_for_employee r
             \<le> 1000000000"
    by (simp add: drift_table_def d v)
  have l: "length (rows drift_table) = 1" by (simp add: drift_table_def)
  show ?thesis
    using shares_within_a_cent_of_total [OF m b] by (simp only: l)
qed

lemma calculate_employee_written:
  assumes "generate_employee_observations fl r (calculate_individual_workdays r)
             (get_daily_value_for_employee r) = Inr obs"
  shows "VALOR_TOTAL_VR (calculate_employee fl r)
           = Val (round2 fl (fmul fl (of_int (calculate_individual_workdays r))
                                     (get_daily_value_for_employee r)))"
    and "CUSTO_EMPRESA (calculate_employee fl r)
           = Val (round2 fl (fmul fl (fmul fl (of_int (calculate_individual_workdays r))
                                              (get_daily_value_for_employee r)) double_0_8))"
    and "DESCONTO_PROFISSIONAL (calculate_employee fl r)
           = Val (round2 fl (fmul fl (fmul fl (of_int (calculate_individual_workdays r))
                                              (get_daily_value_for_employee r)) double_0_2))"
  using assms by (simp_all add: calculate_employee_def Let_def)

lemma drift_example_inputs:
  "calculate_individual_workdays drift_example = 1"
  "get_daily_value_for_employee drift_example = 5887330612880081 / 281474976710656"
  by (simp_all add: calculate_individual_workdays_def get_daily_value_for_employee_def
      drift_example_def no_columns_def get_default_def)

lemma drift_example_products:
  "fmul binary64_ops (of_int 1) (5887330612880081 / 281474976710656)
     = 5887330612880081 / 281474976710656"
  "fmul binary64_ops (5887330612880081 / 281474976710656) double_0_8
     = 4709864490304065 / 281474976710656"
  "fmul binary64_ops (5887330612880081 / 281474976710656) double_0_2
     = 4709864490304065 / 1125899906842624"
  by code_simp+

lemma drift_example_cents:
  "round_half_even (5887330612880081 / 281474976710656 * 100) = 2092"
  "round_half_even (4709864490304065 / 281474976710656 * 100) = 1673"
  "round_half_even (4709864490304065 / 1125899906842624 * 100) = 418"
  by code_simp+

lemma drift_example_nearest:
  "round_binary64 (of_int 2092 / 100) = 1472114128196731 / 70368744177664"
  "round_binary64 (of_int 1673 / 100) = 4709076360369275 / 281474976710656"
  "round_binary64 (of_int 418 / 100) = 588282701325271 / 140737488355328"
  by code_simp+

lemma drift_example_rounded:
  "round2 binary64_ops (5887330612880081 / 281474976710656)
     = 1472114128196731 / 70368744177664"
  "round2 binary64_ops (4709864490304065 / 281474976710656)
     = 4709076360369275 / 281474976710656"
  "round2 binary64_ops (4709864490304065 / 1125899906842624)
     = 588282701325271 / 140737488355328"
proof -
  have r: "round2 binary64_ops x = round_binary64 (of_int (round_half_even (x * 100)) / 100)"
    for x
    by (simp add: binary64_ops_def)
  show "round2 binary64_ops (5887330612880081 / 281474976710656)
     = 1472114128196731 / 70368744177664"
    by (simp only: r drift_example_cents drift_example_nearest)
  show "round2 binary64_ops (4709864490304065 / 281474976710656)
     = 4709076360369275 / 281474976710656"
    by (simp only: r drift_example_cents drift_example_nearest)
  show "round2 binary64_ops (4709864490304065 / 1125899906842624)
     = 588282701325271 / 140737488355328"
    by (simp only: r drift_example_cents drift_example_nearest)
qed

lemma drift_example_observations:
  "\<exists>obs. generate_employee_observations binary64_ops drift_example
           (calculate_individual_workdays drift_example)
           (get_daily_value_for_employee drift_example) = Inr obs"
  by (simp add: generate_employee_observations_def Let_def drift_example_def no_columns_def
      get_default_def)

text \<open>
  C1 as the specification words it bounds the difference by \<open>0.01\<close>.  With one paid day
  at the daily rate \<open>20.916\<close> the fields are the doubles of \<open>20.92\<close>, \<open>16.73\<close> and
  \<open>4.18\<close>, and the total exceeds the sum of the shares by more than \<open>1/100\<close>.
\<close>

theorem shares_drift_counterexample:
  "calculate_individual_workdays drift_example = 1
   \<and> get_daily_value_for_employee drift_example = 5887330612880081 / 281474976710656
   \<and> VALOR_TOTAL_VR (calculate_employee binary64_ops drift_example)
       = Val (1472114128196731 / 70368744177664)
   \<and> CUSTO_EMPRESA (calculate_employee binary64_ops drift_example)
       = Val (4709076360369275 / 281474976710656)
   \<and> DESCONTO_PROFISSIONAL (calculate_employee binary64_ops drift_example)
       = Val (588282701325271 / 140737488355328)
   \<and> \<not> \<bar>(1472114128196731 / 70368744177664 :: rat)
          - (4709076360369275 / 281474976710656 + 588282701325271 / 140737488355328)\<bar>
        \<le> 1 / 100"
proof -
  obtain obs where o: "generate_employee_observations binary64_ops drift_example
           (calculate_individual_workdays drift_example)
           (get_daily_value_for_employee drift_example) = Inr obs"
    using drift_example_observations by blast
  note w = calculate_employee_written [OF o]
  have t: "VALOR_TOTAL_VR (calculate_employee binary64_ops drift_example)
       = Val (1472114128196731 / 70368744177664)"
    by (simp only: w(1) drift_example_inputs drift_example_products drift_example_rounded)
  have e: "CUSTO_EMPRESA (calculate_employee binary64_ops drift_example)
       = Val (4709076360369275 / 281474976710656)"
    by (simp only: w(2) drift_example_inputs drift_example_products drift_example_rounded)
  have c: "DESCONTO_PROFISSIONAL (calculate_employee binary64_ops drift_example)
       = Val (588282701325271 / 140737488355328)"
    by (simp only: w(3) drift_example_inputs drift_example_products drift_example_rounded)
  have n: "\<not> \<bar>(1472114128196731 / 70368744177664 :: rat)
          - (4709076360369275 / 281474976710656 + 588282701325271 / 140737488355328)\<bar>
        \<le> 1 / 100"
    by simp
  show ?thesis
    by (intro conjI) (rule drift_example_inputs t e c n)+
qed

end
